theory Spec2Isabelle
  imports Complex_Main
begin

section \<open>Python values\<close>

text \<open>
  A Python \<^verbatim>\<open>str\<close> is a sequence of Unicode code points, so it is modelled as a list of
  natural numbers; \<open>ascii\<close> turns an ASCII literal into that form. The literals of the
  source that are written in Chinese appear as their code points.
  A Python \<^verbatim>\<open>float\<close> is modelled as a real number: rounding, infinities and NaN are
  outside the model.
\<close>

type_synonym pystr = "nat list"

definition ascii :: "string \<Rightarrow> pystr" where
  "ascii s = map of_char s"

text \<open>
  Values of type \<^verbatim>\<open>Any\<close>: what \<^verbatim>\<open>json.loads\<close> can return and what the metadata
  dictionaries hold. A dictionary is an association list read with \<open>map_of\<close>.
\<close>

datatype pyval =
    PNone
  | PBool bool
  | PInt int
  | PFloat real
  | PStr pystr
  | PList "pyval list"
  | PDict "(pystr \<times> pyval) list"

datatype exc_kind =
    ValueError | KeyError | TypeError | AttributeError | ImportError | JSONDecodeError
  | OverflowError | OtherException

text \<open>An instance of \<^verbatim>\<open>Exception\<close>, which \<^verbatim>\<open>except Exception\<close> catches: its class and
  the text \<^verbatim>\<open>str(e)\<close> gives.\<close>

datatype error = Exc exc_kind pystr

text \<open>
  What an awaited call can raise: an instance of \<^verbatim>\<open>Exception\<close>, or
  \<^verbatim>\<open>asyncio.CancelledError\<close>, which is a \<^verbatim>\<open>BaseException\<close> and no \<^verbatim>\<open>Exception\<close>, so
  that \<^verbatim>\<open>except Exception\<close> and \<^verbatim>\<open>isinstance(x, Exception)\<close> let it pass. It reaches a
  coroutine at an \<^verbatim>\<open>await\<close>; an evaluation awaits the collaborator only. The other
  classes outside \<^verbatim>\<open>Exception\<close> (\<^verbatim>\<open>KeyboardInterrupt\<close>, \<^verbatim>\<open>SystemExit\<close>) end the
  event loop itself and are left out.
\<close>

datatype base_exception = Exception_of error | CancelledError pystr

fun exc_str :: "error \<Rightarrow> pystr" where
  "exc_str (Exc k m) = m"

fun exc_kind_of :: "error \<Rightarrow> exc_kind" where
  "exc_kind_of (Exc k m) = k"

text \<open>
  The functions of Python's standard library and runtime that the module calls and that
  are not part of the repository. They are parameters of the model:
  \<^item> \<open>re_search_json_block s\<close> is group 1 of
    \<^verbatim>\<open>re.search(r'```json\s*(\{.*?\})\s*```', s, re.DOTALL)\<close>, or \<open>None\<close> without a match;
  \<^item> \<open>json_loads\<close> is \<^verbatim>\<open>json.loads\<close>, \<open>Inl\<close> when it raises;
  \<^item> \<open>float_of_str\<close> is \<^verbatim>\<open>float\<close> on a string, \<open>None\<close> for its \<^verbatim>\<open>ValueError\<close>;
  \<^item> \<open>format_float n x\<close> is \<^verbatim>\<open>format(x, '.nf')\<close>;
  \<^item> \<open>str_of_value\<close> is \<^verbatim>\<open>str\<close> on a value that is not a string;
  \<^item> \<open>time_time k\<close> is what the \<open>k\<close>-th call of \<^verbatim>\<open>time.time()\<close> returns.
\<close>

record pylib =
  re_search_json_block :: "pystr \<Rightarrow> pystr option"
  json_loads :: "pystr \<Rightarrow> error + pyval"
  float_of_str :: "pystr \<Rightarrow> real option"
  format_float :: "nat \<Rightarrow> real \<Rightarrow> pystr"
  str_of_value :: "pyval \<Rightarrow> pystr"
  time_time :: "nat \<Rightarrow> real"

subsection \<open>Strings\<close>

text \<open>\<^verbatim>\<open>str.isspace\<close> on one character: the Unicode white space characters.\<close>

definition py_isspace :: "nat \<Rightarrow> bool" where
  "py_isspace c = (c \<in> set [0x09, 0x0A, 0x0B, 0x0C, 0x0D, 0x1C, 0x1D, 0x1E, 0x1F, 0x20, 0x85,
     0xA0, 0x1680, 0x2000, 0x2001, 0x2002, 0x2003, 0x2004, 0x2005, 0x2006, 0x2007, 0x2008,
     0x2009, 0x200A, 0x2028, 0x2029, 0x202F, 0x205F, 0x3000])"

definition py_strip :: "pystr \<Rightarrow> pystr" where
  "py_strip s = rev (dropWhile py_isspace (rev (dropWhile py_isspace s)))"

definition py_startswith :: "pystr \<Rightarrow> pystr \<Rightarrow> bool" where
  "py_startswith s p = (take (length p) s = p)"

text \<open>\<^verbatim>\<open>p in s\<close> for two strings.\<close>

fun py_in_str :: "pystr \<Rightarrow> pystr \<Rightarrow> bool" where
  "py_in_str p [] = (p = [])"
| "py_in_str p (x # xs) = (py_startswith (x # xs) p \<or> py_in_str p xs)"

text \<open>\<^verbatim>\<open>s.find(c)\<close> and \<^verbatim>\<open>s.rfind(c)\<close> for a one-character \<open>c\<close>: an index, or \<open>-1\<close>.\<close>

fun py_find :: "pystr \<Rightarrow> nat \<Rightarrow> int" where
  "py_find [] c = - 1"
| "py_find (x # xs) c =
     (if x = c then 0 else (let r = py_find xs c in if r = - 1 then - 1 else r + 1))"

definition py_rfind :: "pystr \<Rightarrow> nat \<Rightarrow> int" where
  "py_rfind s c =
     (let r = py_find (rev s) c in if r = - 1 then - 1 else int (length s) - 1 - r)"

text \<open>\<^verbatim>\<open>s[i:j]\<close> for \<open>0 \<le> i\<close> and \<open>0 \<le> j\<close>.\<close>

definition py_slice :: "'a list \<Rightarrow> int \<Rightarrow> int \<Rightarrow> 'a list" where
  "py_slice s i j = take (nat j - nat i) (drop (nat i) s)"

text \<open>\<^verbatim>\<open>sep.join(xs)\<close>.\<close>

fun py_join :: "pystr \<Rightarrow> pystr list \<Rightarrow> pystr" where
  "py_join sep [] = []"
| "py_join sep [x] = x"
| "py_join sep (x # y # ys) = x @ sep @ py_join sep (y # ys)"

text \<open>\<^verbatim>\<open>str\<close> on an integer: its decimal digits.\<close>

function str_of_nat :: "nat \<Rightarrow> pystr" where
  "str_of_nat n = (if n < 10 then [48 + n] else str_of_nat (n div 10) @ [48 + n mod 10])"
  by pat_completeness auto
termination
  by (relation "measure id") auto

declare str_of_nat.simps [simp del]

definition py_str_int :: "int \<Rightarrow> pystr" where
  "py_str_int i = (if i < 0 then 45 # str_of_nat (nat (- i)) else str_of_nat (nat i))"

text \<open>\<^verbatim>\<open>str(v)\<close>, as an f-string applies it to a value.\<close>

definition py_str :: "pylib \<Rightarrow> pyval \<Rightarrow> pystr" where
  "py_str lib v = (case v of PStr s \<Rightarrow> s | PInt i \<Rightarrow> py_str_int i | _ \<Rightarrow> str_of_value lib v)"

subsection \<open>Operations on dynamically typed values\<close>

text \<open>The truth value of a Python value, as \<^verbatim>\<open>if v\<close> and \<^verbatim>\<open>not v\<close> read it.\<close>

fun py_truthy :: "pyval \<Rightarrow> bool" where
  "py_truthy PNone = False"
| "py_truthy (PBool b) = b"
| "py_truthy (PInt i) = (i \<noteq> 0)"
| "py_truthy (PFloat x) = (x \<noteq> 0)"
| "py_truthy (PStr s) = (s \<noteq> [])"
| "py_truthy (PList xs) = (xs \<noteq> [])"
| "py_truthy (PDict kv) = (kv \<noteq> [])"

text \<open>The integers \<^verbatim>\<open>float\<close> converts are those below this bound in absolute value,
  the least integer that rounds to no finite double.\<close>

definition float_int_bound :: int where
  "float_int_bound = 2 ^ 1024 - 2 ^ 970"

text \<open>\<^verbatim>\<open>float(v)\<close>: a \<^verbatim>\<open>ValueError\<close> for a string that is no number, an
  \<^verbatim>\<open>OverflowError\<close> for an integer beyond the range of a float, a \<^verbatim>\<open>TypeError\<close> for
  \<^verbatim>\<open>None\<close>, a list or a dictionary.\<close>

definition py_float :: "pylib \<Rightarrow> pyval \<Rightarrow> error + real" where
  "py_float lib v =
     (case v of
        PInt i \<Rightarrow>
          if abs i < float_int_bound then Inr (of_int i)
          else Inl (Exc OverflowError (ascii ''int too large to convert to float''))
      | PFloat x \<Rightarrow> Inr x
      | PBool b \<Rightarrow> Inr (if b then 1 else 0)
      | PStr s \<Rightarrow>
          (case float_of_str lib s of
             Some x \<Rightarrow> Inr x
           | None \<Rightarrow> Inl (Exc ValueError (ascii ''could not convert string to float'')))
      | _ \<Rightarrow> Inl (Exc TypeError
                 (ascii ''float() argument must be a string or a real number'')))"

text \<open>\<^verbatim>\<open>v[key]\<close> with a string key: only a dictionary can answer.\<close>

definition py_getitem :: "pyval \<Rightarrow> pystr \<Rightarrow> error + pyval" where
  "py_getitem v k =
     (case v of
        PDict kv \<Rightarrow>
          (case map_of kv k of Some x \<Rightarrow> Inr x | None \<Rightarrow> Inl (Exc KeyError ([39] @ k @ [39])))
      | PList xs \<Rightarrow>
          Inl (Exc TypeError (ascii ''list indices must be integers or slices, not str''))
      | PStr s \<Rightarrow> Inl (Exc TypeError (ascii ''string indices must be integers, not str''))
      | _ \<Rightarrow> Inl (Exc TypeError (ascii ''object is not subscriptable'')))"

text \<open>\<^verbatim>\<open>v.get(key, default)\<close>: an \<^verbatim>\<open>AttributeError\<close> unless \<open>v\<close> is a dictionary.\<close>

definition py_get :: "pyval \<Rightarrow> pystr \<Rightarrow> pyval \<Rightarrow> error + pyval" where
  "py_get v k d =
     (case v of
        PDict kv \<Rightarrow> Inr (case map_of kv k of Some x \<Rightarrow> x | None \<Rightarrow> d)
      | _ \<Rightarrow> Inl (Exc AttributeError (ascii ''object has no attribute get'')))"

text \<open>\<^verbatim>\<open>key in v\<close> with a string key.\<close>

definition py_contains :: "pystr \<Rightarrow> pyval \<Rightarrow> error + bool" where
  "py_contains k v =
     (case v of
        PDict kv \<Rightarrow> Inr (map_of kv k \<noteq> None)
      | PList xs \<Rightarrow> Inr (PStr k \<in> set xs)
      | PStr s \<Rightarrow> Inr (py_in_str k s)
      | _ \<Rightarrow> Inl (Exc TypeError (ascii ''argument is not iterable'')))"

text \<open>The items a \<^verbatim>\<open>for\<close> loop over \<open>v\<close> visits.\<close>

definition py_iter :: "pyval \<Rightarrow> error + pyval list" where
  "py_iter v =
     (case v of
        PList xs \<Rightarrow> Inr xs
      | PDict kv \<Rightarrow> Inr (map (\<lambda>p. PStr (fst p)) kv)
      | PStr s \<Rightarrow> Inr (map (\<lambda>c. PStr [c]) s)
      | _ \<Rightarrow> Inl (Exc TypeError (ascii ''object is not iterable'')))"

text \<open>The name of a value's type, as the text of a \<^verbatim>\<open>TypeError\<close> quotes it.\<close>

fun py_type_name :: "pyval \<Rightarrow> pystr" where
  "py_type_name PNone = ascii ''NoneType''"
| "py_type_name (PBool b) = ascii ''bool''"
| "py_type_name (PInt i) = ascii ''int''"
| "py_type_name (PFloat x) = ascii ''float''"
| "py_type_name (PStr s) = ascii ''str''"
| "py_type_name (PList xs) = ascii ''list''"
| "py_type_name (PDict kv) = ascii ''dict''"

text \<open>
  \<^verbatim>\<open>v[:n]\<close>: the first \<open>n\<close> items of a string or a list. Any other value raises, with
  the text CPython gives: \<^verbatim>\<open>'int' object is not subscriptable\<close> and the like. (For a
  dictionary the exception is a \<^verbatim>\<open>TypeError\<close> before Python 3.12 and a \<^verbatim>\<open>KeyError\<close>
  from then on; the model has the former.) This is the one exception of the module whose
  text reaches a result; the texts of the others, which are only logged, are shortened.
\<close>

definition py_slice_to :: "pyval \<Rightarrow> nat \<Rightarrow> error + pyval" where
  "py_slice_to v n =
     (case v of
        PStr s \<Rightarrow> Inr (PStr (take n s))
      | PList xs \<Rightarrow> Inr (PList (take n xs))
      | PDict kv \<Rightarrow> Inl (Exc TypeError (ascii ''unhashable type: '' @ [39] @ ascii ''slice'' @ [39]))
      | _ \<Rightarrow> Inl (Exc TypeError
                 ([39] @ py_type_name v @ [39] @ ascii '' object is not subscriptable'')))"

section \<open>The data model\<close>

datatype CriticDimension =
  INNOVATION | LOGIC | COMPLETENESS | FEASIBILITY | QUALITY | RELEVANCE

text \<open>The label of each dimension (\<^verbatim>\<open>dimension.value\<close>), a Chinese word.\<close>

fun dimension_value :: "CriticDimension \<Rightarrow> pystr" where
  "dimension_value INNOVATION = [0x521B, 0x65B0, 0x6027]"
| "dimension_value LOGIC = [0x903B, 0x8F91, 0x6027]"
| "dimension_value COMPLETENESS = [0x5B8C, 0x6574, 0x6027]"
| "dimension_value FEASIBILITY = [0x53EF, 0x884C, 0x6027]"
| "dimension_value QUALITY = [0x8D28, 0x91CF]"
| "dimension_value RELEVANCE = [0x76F8, 0x5173, 0x6027]"

text \<open>The members in the order of their declaration, as iterating the enumeration gives them.\<close>

definition CriticDimension_members :: "CriticDimension list" where
  "CriticDimension_members =
     [INNOVATION, LOGIC, COMPLETENESS, FEASIBILITY, QUALITY, RELEVANCE]"

text \<open>\<^verbatim>\<open>CriticDimension(v)\<close>: the member with that label, else a \<^verbatim>\<open>ValueError\<close>.\<close>

definition CriticDimension_of :: "pyval \<Rightarrow> error + CriticDimension" where
  "CriticDimension_of v =
     (case v of
        PStr s \<Rightarrow>
          (case find (\<lambda>d. dimension_value d = s) CriticDimension_members of
             Some d \<Rightarrow> Inr d
           | None \<Rightarrow> Inl (Exc ValueError (ascii ''not a valid CriticDimension'')))
      | _ \<Rightarrow> Inl (Exc ValueError (ascii ''not a valid CriticDimension'')))"

text \<open>
  The fields \<open>reasoning\<close>, \<open>suggestions\<close>, \<open>summary_critique\<close> and
  \<open>improvement_suggestions\<close> are annotated as strings and lists of strings, but the parser
  stores whatever the JSON holds there, so they are values of type \<open>pyval\<close>.
\<close>

record CriticScore =
  dimension :: CriticDimension
  score :: real
  reasoning :: pyval
  suggestions :: pyval

record CriticOutput =
  target_output_id :: pystr
  critic_agent_id :: pystr
  overall_score :: real
  satisfaction_score :: real
  dimension_scores :: "CriticScore list"
  summary_critique :: pyval
  improvement_suggestions :: pyval
  critique_time :: real
  iteration :: int
  metadata :: "(pystr \<times> pyval) list"

text \<open>
  Modelled from the spec: the classes \<^verbatim>\<open>ActorOutput\<close>, \<^verbatim>\<open>Agent\<close> and \<^verbatim>\<open>Task\<close> are
  imported from modules that are not among the sources. The spec's section on external
  interfaces lists what each supplies: the content under review its text, the id of the
  agent that produced it, an iteration number, a generation latency and a metadata mapping;
  the evaluator an id, a display name, a role label and a persona text; the task an id, a
  description, a domain and optional lists of requirements and constraints.
\<close>

record ActorOutput =
  ao_agent_id :: pystr
  ao_content :: pystr
  ao_iteration :: int
  ao_generation_time :: real
  ao_metadata :: "(pystr \<times> pyval) list"

record Agent =
  agent_id :: pystr
  name :: pystr
  role :: pystr
  system_prompt :: pystr

record Task =
  task_id :: pystr
  description :: pystr
  domain :: pystr
  requirements :: "pystr list option"
  constraints :: "pystr list option"

text \<open>
  The text-generation collaborator, as a function of the prompt: whether the awaited
  \<^verbatim>\<open>get_response\<close> yields to the event loop before it completes (a call that waits for
  the network does, a stub that returns at once does not), and what it returns or raises.
\<close>

type_synonym conversation = "pystr \<Rightarrow> bool \<times> (base_exception + pyval)"

text \<open>
  The object's state. \<open>naga_conversation\<close> is the collaborator, or absent.
  \<open>clock_reads\<close> is not a field of the class: it counts the calls of \<^verbatim>\<open>time.time()\<close>
  made so far, so that each reading of the clock is a value of its own.
\<close>

record GameCriticizer =
  naga_conversation :: "conversation option"
  critique_history :: "CriticOutput list"
  current_iteration :: int
  clock_reads :: nat

text \<open>
  \<^verbatim>\<open>__init__\<close> with \<^verbatim>\<open>_init_naga_api\<close>: without a collaborator of the caller's, the
  constructor imports the system's one; \<open>imported\<close> is what that import and construction
  yield. An \<^verbatim>\<open>ImportError\<close> leaves the collaborator absent, any other exception leaves
  the constructor.
\<close>

definition init :: "conversation option \<Rightarrow> error + conversation \<Rightarrow> error + GameCriticizer" where
  "init naga imported =
     (let self = \<lparr>naga_conversation = naga, critique_history = [], current_iteration = 0,
                  clock_reads = 0\<rparr>
      in case naga of
           Some c \<Rightarrow> Inr self
         | None \<Rightarrow>
             (case imported of
                Inr c \<Rightarrow> Inr (self\<lparr>naga_conversation := Some c\<rparr>)
              | Inl e \<Rightarrow> if exc_kind_of e = ImportError then Inr self else Inl e))"

section \<open>The satisfaction estimator\<close>

text \<open>The inner loop of \<^verbatim>\<open>_calculate_satisfaction_score\<close>: the score of the first entry
  of the previous critique with the dimension looked for (the loop breaks there).\<close>

fun find_last_score :: "CriticScore list \<Rightarrow> CriticDimension \<Rightarrow> real option" where
  "find_last_score [] d = None"
| "find_last_score (last_score # rest) d =
     (if dimension last_score = d then Some (score last_score) else find_last_score rest d)"

text \<open>The outer loop: one improvement for each current score that has a previous one.\<close>

fun collect_improvements :: "CriticScore list \<Rightarrow> CriticScore list \<Rightarrow> real list \<Rightarrow> real list" where
  "collect_improvements last_scores [] improvements = improvements"
| "collect_improvements last_scores (current_score # rest) improvements =
     (case find_last_score last_scores (dimension current_score) of
        Some s \<Rightarrow>
          collect_improvements last_scores rest (improvements @ [score current_score - s])
      | None \<Rightarrow> collect_improvements last_scores rest improvements)"

definition calculate_satisfaction_score ::
    "CriticOutput list option \<Rightarrow> CriticScore list \<Rightarrow> real" where
  "calculate_satisfaction_score previous_critiques current_scores =
     (case previous_critiques of
        None \<Rightarrow> 7
      | Some prevs \<Rightarrow>
          if prevs = [] \<or> current_scores = [] then 7
          else
            (let last_critique = last prevs;
                 improvements =
                   collect_improvements (dimension_scores last_critique) current_scores []
             in if improvements \<noteq> [] then
                  (let avg_improvement = sum_list improvements / real (length improvements);
                       satisfaction = 7 + avg_improvement
                   in max 0 (min 10 satisfaction))
                else 7))"

section \<open>The prompt\<close>

text \<open>The sections of \<^verbatim>\<open>_build_critique_prompt\<close> that do not depend on its arguments:
  the rubric of the six dimensions and the JSON format asked of the evaluator.\<close>

definition prompt_dimension_sections :: "pystr list" where
  "prompt_dimension_sections =
     [([0xA] @ ascii ''# '' @ [0x6279, 0x5224, 0x7EF4, 0x5EA6, 0x8981, 0x6C42, 0xA]),
      ([0x8BF7, 0x4ECE, 0x4EE5, 0x4E0B] @ ascii ''6''
          @ [0x4E2A, 0x7EF4, 0x5EA6, 0x5BF9, 0x5185, 0x5BB9, 0x8FDB, 0x884C, 0x8BC4, 0x5206]
          @ [0xFF08] @ ascii ''0-10'' @ [0x5206, 0xFF09, 0x548C, 0x5206, 0x6790] @ ascii '':''
          @ [0xA]),
      (ascii ''1. **'' @ [0x521B, 0x65B0, 0x6027] @ ascii ''**:''
          @ [0x5185, 0x5BB9, 0x662F, 0x5426, 0x5177, 0x6709, 0x65B0, 0x9896, 0x7684, 0x601D]
          @ [0x8DEF, 0x548C, 0x72EC, 0x7279, 0x7684, 0x89C1, 0x89E3, 0xA]),
      (ascii ''2. **'' @ [0x903B, 0x8F91, 0x6027] @ ascii ''**:''
          @ [0x8BBA, 0x8BC1, 0x662F, 0x5426, 0x4E25, 0x5BC6] @ ascii '',''
          @ [0x7ED3, 0x6784, 0x662F, 0x5426, 0x5408, 0x7406, 0xA]),
      (ascii ''3. **'' @ [0x5B8C, 0x6574, 0x6027] @ ascii ''**:''
          @ [0x5185, 0x5BB9, 0x662F, 0x5426, 0x5168, 0x9762] @ ascii '',''
          @ [0x662F, 0x5426, 0x9057, 0x6F0F, 0x91CD, 0x8981, 0x65B9, 0x9762, 0xA]),
      (ascii ''4. **'' @ [0x53EF, 0x884C, 0x6027] @ ascii ''**:''
          @ [0x65B9, 0x6848, 0x662F, 0x5426, 0x5177, 0x6709, 0x5B9E, 0x9645, 0x64CD, 0x4F5C]
          @ [0x6027, 0x548C, 0x53EF, 0x6267, 0x884C, 0x6027, 0xA]),
      (ascii ''5. **'' @ [0x8D28, 0x91CF] @ ascii ''**:''
          @ [0x5185, 0x5BB9, 0x7684, 0x4E13, 0x4E1A, 0x6C34, 0x51C6, 0x548C, 0x8868, 0x8FBE]
          @ [0x8D28, 0x91CF, 0xA]),
      (ascii ''6. **'' @ [0x76F8, 0x5173, 0x6027] @ ascii ''**:''
          @ [0x5185, 0x5BB9, 0x4E0E, 0x4EFB, 0x52A1, 0x9700, 0x6C42, 0x7684, 0x5339, 0x914D]
          @ [0x7A0B, 0x5EA6, 0xA])]"

definition prompt_format_sections :: "pystr list" where
  "prompt_format_sections =
     [([0xA] @ ascii ''# '' @ [0x8F93, 0x51FA, 0x683C, 0x5F0F, 0x8981, 0x6C42, 0xA]),
      ([0x8BF7, 0x4E25, 0x683C, 0x6309, 0x7167, 0x4EE5, 0x4E0B] @ ascii ''JSON''
          @ [0x683C, 0x5F0F, 0x8F93, 0x51FA, 0x6279, 0x5224, 0x7ED3, 0x679C] @ ascii '':''
          @ [0xA]),
      ([0x60, 0x60, 0x60] @ ascii ''json'' @ [0xA]),
      (ascii ''{'' @ [0xA]),
      (ascii ''  '' @ [0x22] @ ascii ''dimension_scores'' @ [0x22] @ ascii '': ['' @ [0xA]),
      (ascii ''    {'' @ [0x22] @ ascii ''dimension'' @ [0x22] @ ascii '': ''
          @ [0x22, 0x521B, 0x65B0, 0x6027, 0x22] @ ascii '', '' @ [0x22] @ ascii ''score''
          @ [0x22] @ ascii '': 7.5, '' @ [0x22] @ ascii ''reasoning'' @ [0x22] @ ascii '': ''
          @ [0x22, 0x8BC4, 0x5206, 0x7406, 0x7531, 0x22] @ ascii '', '' @ [0x22]
          @ ascii ''suggestions'' @ [0x22] @ ascii '': ['' @ [0x22, 0x5EFA, 0x8BAE]
          @ ascii ''1'' @ [0x22] @ ascii '', '' @ [0x22, 0x5EFA, 0x8BAE] @ ascii ''2'' @ [0x22]
          @ ascii '']},'' @ [0xA]),
      (ascii ''    {'' @ [0x22] @ ascii ''dimension'' @ [0x22] @ ascii '': ''
          @ [0x22, 0x903B, 0x8F91, 0x6027, 0x22] @ ascii '', '' @ [0x22] @ ascii ''score''
          @ [0x22] @ ascii '': 8.0, '' @ [0x22] @ ascii ''reasoning'' @ [0x22] @ ascii '': ''
          @ [0x22, 0x8BC4, 0x5206, 0x7406, 0x7531, 0x22] @ ascii '', '' @ [0x22]
          @ ascii ''suggestions'' @ [0x22] @ ascii '': ['' @ [0x22, 0x5EFA, 0x8BAE]
          @ ascii ''1'' @ [0x22] @ ascii '']},'' @ [0xA]),
      (ascii ''    ...'' @ [0xA]),
      (ascii ''  ],'' @ [0xA]),
      (ascii ''  '' @ [0x22] @ ascii ''overall_score'' @ [0x22] @ ascii '': 7.8,'' @ [0xA]),
      (ascii ''  '' @ [0x22] @ ascii ''summary_critique'' @ [0x22] @ ascii '': ''
          @ [0x22, 0x603B, 0x4F53, 0x6279, 0x5224, 0x610F, 0x89C1] @ ascii '',''
          @ [0x5305, 0x542B, 0x4E3B, 0x8981, 0x4F18, 0x70B9, 0x548C, 0x4E0D, 0x8DB3, 0x22]
          @ ascii '','' @ [0xA]),
      (ascii ''  '' @ [0x22] @ ascii ''improvement_suggestions'' @ [0x22] @ ascii '': [''
          @ [0x22, 0x5177, 0x4F53, 0x6539, 0x8FDB, 0x5EFA, 0x8BAE] @ ascii ''1'' @ [0x22]
          @ ascii '', '' @ [0x22, 0x5177, 0x4F53, 0x6539, 0x8FDB, 0x5EFA, 0x8BAE] @ ascii ''2''
          @ [0x22] @ ascii '', '' @ [0x22, 0x5177, 0x4F53, 0x6539, 0x8FDB, 0x5EFA, 0x8BAE]
          @ ascii ''3'' @ [0x22] @ ascii '']'' @ [0xA]),
      (ascii ''}'' @ [0xA, 0x60, 0x60, 0x60, 0xA])]"

definition prompt_principle_sections :: "Agent \<Rightarrow> Task \<Rightarrow> pystr list" where
  "prompt_principle_sections critic_agent task =
     [([0xA] @ ascii ''# '' @ [0x6279, 0x5224, 0x539F, 0x5219, 0xA]),
      (ascii ''1. **'' @ [0x5BA2, 0x89C2, 0x516C, 0x6B63] @ ascii ''**:''
          @ [0x57FA, 0x4E8E, 0x5185, 0x5BB9, 0x8D28, 0x91CF, 0x8FDB, 0x884C, 0x8BC4, 0x4EF7]
          @ ascii '','' @ [0x907F, 0x514D, 0x4E3B, 0x89C2, 0x504F, 0x89C1, 0xA]),
      (ascii ''2. **'' @ [0x5EFA, 0x8BBE, 0x6027] @ ascii ''**:''
          @ [0x4E0D, 0x4EC5, 0x6307, 0x51FA, 0x95EE, 0x9898] @ ascii '',''
          @ [0x66F4, 0x8981, 0x63D0, 0x4F9B, 0x6539, 0x8FDB, 0x65B9, 0x5411, 0xA]),
      (ascii ''3. **'' @ [0x4E13, 0x4E1A, 0x6027] @ ascii ''**:'' @ [0x8FD0, 0x7528]) @ role critic_agent @ [0x7684, 0x4E13, 0x4E1A, 0x77E5, 0x8BC6, 0x8FDB, 0x884C, 0x5206, 0x6790, 0xA],
      (ascii ''4. **'' @ [0x9488, 0x5BF9, 0x6027] @ ascii ''**:'' @ [0x9488, 0x5BF9]) @ domain task @ [0x9886, 0x57DF, 0x7684, 0x7279, 0x70B9, 0x8FDB, 0x884C, 0x8BC4, 0x4EF7, 0xA],
      (ascii ''5. **'' @ [0x53D1, 0x5C55, 0x6027] @ ascii ''**:''
          @ [0x8003, 0x8651, 0x5185, 0x5BB9, 0x7684, 0x53D1, 0x5C55, 0x6F5C, 0x529B, 0x548C]
          @ [0x4F18, 0x5316, 0x7A7A, 0x95F4, 0xA])]"

text \<open>
  The loop over the two most recent previous critiques. The slice
  \<^verbatim>\<open>prev_critique.summary_critique[:100]\<close> raises when the summary is neither a string
  nor a list; the other two lines format an integer and a float.
\<close>

fun prompt_history :: "pylib \<Rightarrow> CriticOutput list \<Rightarrow> error + pystr list" where
  "prompt_history lib [] = Inr []"
| "prompt_history lib (prev_critique # rest) =
     (case py_slice_to (summary_critique prev_critique) 100 of
        Inl e \<Rightarrow> Inl e
      | Inr summary \<Rightarrow>
          (case prompt_history lib rest of
             Inl e \<Rightarrow> Inl e
           | Inr sections \<Rightarrow>
               Inr ([(ascii ''### '' @ [0x7B2C]) @ py_str_int (iteration prev_critique) @ ([0x8F6E, 0x6279, 0x5224]
                   @ ascii '':'' @ [0xA]),
                     (ascii ''- '' @ [0x603B, 0x4F53, 0x8BC4, 0x5206] @ ascii '':'') @ format_float lib 1 (overall_score prev_critique)
                       @ (ascii ''/10'' @ [0xA]),
                     (ascii ''- '' @ [0x4E3B, 0x8981, 0x610F, 0x89C1] @ ascii '':'') @ py_str lib summary @ (ascii ''...'' @ [0xA])] @ sections)))"

definition build_critique_prompt ::
    "pylib \<Rightarrow> ActorOutput \<Rightarrow> Agent \<Rightarrow> Task \<Rightarrow> CriticOutput list option \<Rightarrow> error + pystr" where
  "build_critique_prompt lib actor_output critic_agent task previous_critiques =
     (let sections_task =
            [(ascii ''# '' @ [0x6279, 0x5224, 0x4E13, 0x5BB6, 0x8EAB, 0x4EFD, 0xA]) @ system_prompt critic_agent @ [0xA],
             (ascii ''# ''
                 @ [0x6279, 0x5224, 0x4EFB, 0x52A1, 0xA, 0x4F60, 0x9700, 0x8981, 0x5BF9, 0x4EE5]
                 @ [0x4E0B, 0x5185, 0x5BB9, 0x8FDB, 0x884C, 0x4E13, 0x4E1A, 0x7684, 0x591A, 0x7EF4]
                 @ [0x5EA6, 0x6279, 0x5224, 0x5206, 0x6790] @ ascii '':'' @ [0xA]),
             (ascii ''## '' @ [0x539F, 0x59CB, 0x4EFB, 0x52A1, 0x80CC, 0x666F, 0xA]),
             (ascii ''- '' @ [0x4EFB, 0x52A1] @ ascii ''ID:'') @ task_id task @ [0xA],
             (ascii ''- '' @ [0x4EFB, 0x52A1, 0x63CF, 0x8FF0] @ ascii '':'') @ description task @ [0xA],
             (ascii ''- '' @ [0x4EFB, 0x52A1, 0x9886, 0x57DF] @ ascii '':'') @ domain task @ [0xA]];
          sections_requirements =
            (case requirements task of
               None \<Rightarrow> []
             | Some rs \<Rightarrow>
                 if rs \<noteq> [] then [(ascii ''- '' @ [0x4EFB, 0x52A1, 0x9700, 0x6C42]
                     @ ascii '':'') @ py_join [0x3001] rs @ [0xA]] else []);
          sections_constraints =
            (case constraints task of
               None \<Rightarrow> []
             | Some cs \<Rightarrow>
                 if cs \<noteq> [] then [(ascii ''- '' @ [0x7EA6, 0x675F, 0x6761, 0x4EF6]
                     @ ascii '':'') @ py_join [0x3001] cs @ [0xA]] else []);
          sections_content =
            [([0xA] @ ascii ''## '' @ [0x5F85, 0x6279, 0x5224, 0x5185, 0x5BB9, 0xA]),
             (ascii ''**'' @ [0x4F5C, 0x8005] @ ascii ''**:'')
               @ py_str lib (case map_of (ao_metadata actor_output) (ascii ''agent_name'') of
                               Some v \<Rightarrow> v | None \<Rightarrow> PStr [0x672A, 0x77E5])
               @ [0xA],
             (ascii ''**'' @ [0x8FED, 0x4EE3, 0x8F6E, 0x6B21] @ ascii ''**:'' @ [0x7B2C]) @ py_str_int (ao_iteration actor_output) @ [0x8F6E, 0xA],
             (ascii ''**'' @ [0x751F, 0x6210, 0x65F6, 0x95F4] @ ascii ''**:'') @ format_float lib 2 (ao_generation_time actor_output)
               @ [0x79D2, 0xA],
             (ascii ''**'' @ [0x5185, 0x5BB9] @ ascii ''**:'' @ [0xA, 0x60, 0x60, 0x60, 0xA]) @ ao_content actor_output @ [0xA, 0x60, 0x60, 0x60, 0xA]]
      in case (case previous_critiques of
                 None \<Rightarrow> Inr []
               | Some prevs \<Rightarrow>
                   if prevs = [] then Inr []
                   else
                     (case prompt_history lib (drop (length prevs - 2) prevs) of
                        Inl e \<Rightarrow> Inl e
                      | Inr sections \<Rightarrow> Inr (([0xA] @ ascii ''## ''
                          @ [0x5386, 0x53F2, 0x6279, 0x5224, 0x53C2, 0x8003, 0xA]) # sections))) of
           Inl e \<Rightarrow> Inl e
         | Inr sections_history \<Rightarrow>
             Inr (py_join [0xA]
                   (sections_task @ sections_requirements @ sections_constraints
                    @ sections_content @ sections_history @ prompt_dimension_sections
                    @ prompt_format_sections @ prompt_principle_sections critic_agent task
                    @ [([0xA, 0x8BF7, 0x5F00, 0x59CB, 0x8FDB, 0x884C, 0x4E13, 0x4E1A, 0x7684, 0x6279]
                        @ [0x5224, 0x5206, 0x6790] @ ascii '':'')])))"

section \<open>The simulated evaluator\<close>

text \<open>The canned payloads of \<^verbatim>\<open>_generate_mock_critique\<close>, keyed by a word looked for in
  the evaluator's name and role: a quality analyst, a technical reviewer and a product
  assessor, in the order of the dictionary.\<close>

definition mock_critiques :: "(pystr \<times> pystr) list" where
  "mock_critiques =
     [([0x8D28, 0x91CF, 0x5206, 0x6790, 0x5E08],
       (ascii ''{'' @ [0xA] @ ascii ''  '' @ [0x22] @ ascii ''dimension_scores'' @ [0x22]
           @ ascii '': ['' @ [0xA] @ ascii ''    {'' @ [0x22] @ ascii ''dimension'' @ [0x22]
           @ ascii '': '' @ [0x22, 0x521B, 0x65B0, 0x6027, 0x22] @ ascii '', '' @ [0x22]
           @ ascii ''score'' @ [0x22] @ ascii '': 7.5, '' @ [0x22] @ ascii ''reasoning''
           @ [0x22] @ ascii '': ''
           @ [0x22, 0x63D0, 0x51FA, 0x4E86, 0x4E00, 0x4E9B, 0x65B0, 0x9896, 0x7684, 0x60F3]
           @ [0x6CD5] @ ascii '',''
           @ [0x4F46, 0x7F3A, 0x4E4F, 0x7A81, 0x7834, 0x6027, 0x521B, 0x65B0, 0x22]
           @ ascii '', '' @ [0x22] @ ascii ''suggestions'' @ [0x22] @ ascii '': [''
           @ [0x22, 0x63A2, 0x7D22, 0x66F4, 0x524D, 0x6CBF, 0x7684, 0x6280, 0x672F, 0x65B9]
           @ [0x6848, 0x22] @ ascii '', ''
           @ [0x22, 0x7ED3, 0x5408, 0x6700, 0x65B0, 0x884C, 0x4E1A, 0x8D8B, 0x52BF, 0x22]
           @ ascii '']},'' @ [0xA] @ ascii ''    {'' @ [0x22] @ ascii ''dimension'' @ [0x22]
           @ ascii '': '' @ [0x22, 0x903B, 0x8F91, 0x6027, 0x22] @ ascii '', '' @ [0x22]
           @ ascii ''score'' @ [0x22] @ ascii '': 8.2, '' @ [0x22] @ ascii ''reasoning''
           @ [0x22] @ ascii '': '' @ [0x22, 0x6574, 0x4F53, 0x903B, 0x8F91, 0x6E05, 0x6670]
           @ ascii '','' @ [0x8BBA, 0x8BC1, 0x8F83, 0x4E3A, 0x4E25, 0x5BC6, 0x22] @ ascii '', ''
           @ [0x22] @ ascii ''suggestions'' @ [0x22] @ ascii '': [''
           @ [0x22, 0x52A0, 0x5F3A, 0x56E0, 0x679C, 0x5173, 0x7CFB, 0x8BBA, 0x8BC1, 0x22]
           @ ascii '']},'' @ [0xA] @ ascii ''    {'' @ [0x22] @ ascii ''dimension'' @ [0x22]
           @ ascii '': '' @ [0x22, 0x5B8C, 0x6574, 0x6027, 0x22] @ ascii '', '' @ [0x22]
           @ ascii ''score'' @ [0x22] @ ascii '': 6.8, '' @ [0x22] @ ascii ''reasoning''
           @ [0x22] @ ascii '': '' @ [0x22, 0x4E3B, 0x8981, 0x5185, 0x5BB9, 0x9F50, 0x5168]
           @ ascii '',''
           @ [0x4F46, 0x90E8, 0x5206, 0x7EC6, 0x8282, 0x6709, 0x5F85, 0x8865, 0x5145, 0x22]
           @ ascii '', '' @ [0x22] @ ascii ''suggestions'' @ [0x22] @ ascii '': [''
           @ [0x22, 0x8865, 0x5145, 0x5B9E, 0x65BD, 0x7EC6, 0x8282, 0x22] @ ascii '', ''
           @ [0x22, 0x589E, 0x52A0, 0x98CE, 0x9669, 0x8BC4, 0x4F30, 0x22] @ ascii '']},''
           @ [0xA] @ ascii ''    {'' @ [0x22] @ ascii ''dimension'' @ [0x22] @ ascii '': ''
           @ [0x22, 0x53EF, 0x884C, 0x6027, 0x22] @ ascii '', '' @ [0x22] @ ascii ''score''
           @ [0x22] @ ascii '': 7.0, '' @ [0x22] @ ascii ''reasoning'' @ [0x22] @ ascii '': ''
           @ [0x22, 0x65B9, 0x6848, 0x57FA, 0x672C, 0x53EF, 0x884C] @ ascii '',''
           @ [0x4F46, 0x9700, 0x8981, 0x8003, 0x8651, 0x5B9E, 0x9645, 0x7EA6, 0x675F, 0x22]
           @ ascii '', '' @ [0x22] @ ascii ''suggestions'' @ [0x22] @ ascii '': [''
           @ [0x22, 0x8BC4, 0x4F30, 0x8D44, 0x6E90, 0x9700, 0x6C42, 0x22] @ ascii '', ''
           @ [0x22, 0x5236, 0x5B9A, 0x5206, 0x9636, 0x6BB5, 0x5B9E, 0x65BD, 0x8BA1, 0x5212]
           @ [0x22] @ ascii '']},'' @ [0xA] @ ascii ''    {'' @ [0x22] @ ascii ''dimension''
           @ [0x22] @ ascii '': '' @ [0x22, 0x8D28, 0x91CF, 0x22] @ ascii '', '' @ [0x22]
           @ ascii ''score'' @ [0x22] @ ascii '': 7.8, '' @ [0x22] @ ascii ''reasoning''
           @ [0x22] @ ascii '': '' @ [0x22, 0x4E13, 0x4E1A, 0x6C34, 0x51C6, 0x826F, 0x597D]
           @ ascii '','' @ [0x8868, 0x8FBE, 0x6E05, 0x6670, 0x22] @ ascii '', '' @ [0x22]
           @ ascii ''suggestions'' @ [0x22] @ ascii '': [''
           @ [0x22, 0x4F18, 0x5316, 0x6587, 0x6863, 0x7ED3, 0x6784, 0x22] @ ascii '', ''
           @ [0x22, 0x589E, 0x52A0, 0x53EF, 0x89C6, 0x5316, 0x5143, 0x7D20, 0x22]
           @ ascii '']},'' @ [0xA] @ ascii ''    {'' @ [0x22] @ ascii ''dimension'' @ [0x22]
           @ ascii '': '' @ [0x22, 0x76F8, 0x5173, 0x6027, 0x22] @ ascii '', '' @ [0x22]
           @ ascii ''score'' @ [0x22] @ ascii '': 8.5, '' @ [0x22] @ ascii ''reasoning''
           @ [0x22] @ ascii '': ''
           @ [0x22, 0x4E0E, 0x4EFB, 0x52A1, 0x9700, 0x6C42, 0x9AD8, 0x5EA6, 0x5339, 0x914D]
           @ [0x22] @ ascii '', '' @ [0x22] @ ascii ''suggestions'' @ [0x22] @ ascii '': [''
           @ [0x22, 0x8FDB, 0x4E00, 0x6B65, 0x7EC6, 0x5316, 0x9700, 0x6C42, 0x5BF9, 0x5E94]
           @ [0x5173, 0x7CFB, 0x22] @ ascii '']}'' @ [0xA] @ ascii ''  ],'' @ [0xA]
           @ ascii ''  '' @ [0x22] @ ascii ''overall_score'' @ [0x22] @ ascii '': 7.6,'' @ [0xA]
           @ ascii ''  '' @ [0x22] @ ascii ''summary_critique'' @ [0x22] @ ascii '': ''
           @ [0x22, 0x6574, 0x4F53, 0x65B9, 0x6848, 0x5177, 0x6709, 0x826F, 0x597D, 0x7684]
           @ [0x4E13, 0x4E1A, 0x57FA, 0x7840, 0x548C, 0x53EF, 0x884C, 0x6027] @ ascii '',''
           @ [0x903B, 0x8F91, 0x7ED3, 0x6784, 0x6E05, 0x6670] @ ascii '',''
           @ [0x4E0E, 0x4EFB, 0x52A1, 0x9700, 0x6C42, 0x5339, 0x914D, 0x5EA6, 0x9AD8]
           @ ascii ''.''
           @ [0x4E3B, 0x8981, 0x4F18, 0x52BF, 0x5728, 0x4E8E, 0x4E13, 0x4E1A, 0x6027, 0x548C]
           @ [0x76F8, 0x5173, 0x6027] @ ascii '',''
           @ [0x4F46, 0x5728, 0x521B, 0x65B0, 0x6027, 0x548C, 0x5B8C, 0x6574, 0x6027, 0x65B9]
           @ [0x9762, 0x8FD8, 0x6709, 0x63D0, 0x5347, 0x7A7A, 0x95F4] @ ascii ''.''
           @ [0x5EFA, 0x8BAE, 0x52A0, 0x5F3A, 0x524D, 0x6CBF, 0x6280, 0x672F, 0x7684, 0x63A2]
           @ [0x7D22] @ ascii '',''
           @ [0x8865, 0x5145, 0x5B9E, 0x65BD, 0x7EC6, 0x8282, 0x548C, 0x98CE, 0x9669, 0x8BC4]
           @ [0x4F30] @ ascii ''.'' @ [0x22] @ ascii '','' @ [0xA] @ ascii ''  '' @ [0x22]
           @ ascii ''improvement_suggestions'' @ [0x22] @ ascii '': [''
           @ [0x22, 0x589E, 0x52A0, 0x521B, 0x65B0, 0x6280, 0x672F, 0x65B9, 0x6848, 0x7684]
           @ [0x63A2, 0x7D22, 0x22] @ ascii '', ''
           @ [0x22, 0x8865, 0x5145, 0x8BE6, 0x7EC6, 0x7684, 0x5B9E, 0x65BD, 0x8BA1, 0x5212]
           @ [0x548C, 0x65F6, 0x95F4, 0x7EBF, 0x22] @ ascii '', ''
           @ [0x22, 0x52A0, 0x5165, 0x98CE, 0x9669, 0x8BC4, 0x4F30, 0x548C, 0x5E94, 0x5BF9]
           @ [0x7B56, 0x7565, 0x22] @ ascii '', ''
           @ [0x22, 0x4F18, 0x5316, 0x6587, 0x6863, 0x7ED3, 0x6784, 0x548C, 0x53EF, 0x8BFB]
           @ [0x6027, 0x22] @ ascii '']'' @ [0xA] @ ascii ''}'')),
      ([0x6280, 0x672F, 0x8BC4, 0x5BA1],
       (ascii ''{'' @ [0xA] @ ascii ''  '' @ [0x22] @ ascii ''dimension_scores'' @ [0x22]
           @ ascii '': ['' @ [0xA] @ ascii ''    {'' @ [0x22] @ ascii ''dimension'' @ [0x22]
           @ ascii '': '' @ [0x22, 0x521B, 0x65B0, 0x6027, 0x22] @ ascii '', '' @ [0x22]
           @ ascii ''score'' @ [0x22] @ ascii '': 6.5, '' @ [0x22] @ ascii ''reasoning''
           @ [0x22] @ ascii '': ''
           @ [0x22, 0x6280, 0x672F, 0x65B9, 0x6848, 0x76F8, 0x5BF9, 0x4FDD, 0x5B88]
           @ ascii '','' @ [0x521B, 0x65B0, 0x70B9, 0x4E0D, 0x591F, 0x7A81, 0x51FA, 0x22]
           @ ascii '', '' @ [0x22] @ ascii ''suggestions'' @ [0x22] @ ascii '': [''
           @ [0x22, 0x5F15, 0x5165, 0x65B0, 0x5174, 0x6280, 0x672F, 0x6808, 0x22] @ ascii '', ''
           @ [0x22, 0x63A2, 0x7D22, 0x521B, 0x65B0, 0x67B6, 0x6784, 0x6A21, 0x5F0F, 0x22]
           @ ascii '']},'' @ [0xA] @ ascii ''    {'' @ [0x22] @ ascii ''dimension'' @ [0x22]
           @ ascii '': '' @ [0x22, 0x903B, 0x8F91, 0x6027, 0x22] @ ascii '', '' @ [0x22]
           @ ascii ''score'' @ [0x22] @ ascii '': 8.8, '' @ [0x22] @ ascii ''reasoning''
           @ [0x22] @ ascii '': '' @ [0x22, 0x6280, 0x672F, 0x903B, 0x8F91, 0x4E25, 0x5BC6]
           @ ascii '','' @ [0x67B6, 0x6784, 0x8BBE, 0x8BA1, 0x5408, 0x7406, 0x22] @ ascii '', ''
           @ [0x22] @ ascii ''suggestions'' @ [0x22] @ ascii '': [''
           @ [0x22, 0x5B8C, 0x5584, 0x5F02, 0x5E38, 0x5904, 0x7406, 0x903B, 0x8F91, 0x22]
           @ ascii '']},'' @ [0xA] @ ascii ''    {'' @ [0x22] @ ascii ''dimension'' @ [0x22]
           @ ascii '': '' @ [0x22, 0x5B8C, 0x6574, 0x6027, 0x22] @ ascii '', '' @ [0x22]
           @ ascii ''score'' @ [0x22] @ ascii '': 7.2, '' @ [0x22] @ ascii ''reasoning''
           @ [0x22] @ ascii '': ''
           @ [0x22, 0x6838, 0x5FC3, 0x6280, 0x672F, 0x8981, 0x7D20, 0x5B8C, 0x5907]
           @ ascii '',''
           @ [0x4F46, 0x7F3A, 0x5C11, 0x90E8, 0x7F72, 0x548C, 0x8FD0, 0x7EF4, 0x8003, 0x8651]
           @ [0x22] @ ascii '', '' @ [0x22] @ ascii ''suggestions'' @ [0x22] @ ascii '': [''
           @ [0x22, 0x8865, 0x5145, 0x90E8, 0x7F72, 0x65B9, 0x6848, 0x22] @ ascii '', ''
           @ [0x22, 0x589E, 0x52A0, 0x76D1, 0x63A7, 0x4F53, 0x7CFB, 0x22] @ ascii '']},''
           @ [0xA] @ ascii ''    {'' @ [0x22] @ ascii ''dimension'' @ [0x22] @ ascii '': ''
           @ [0x22, 0x53EF, 0x884C, 0x6027, 0x22] @ ascii '', '' @ [0x22] @ ascii ''score''
           @ [0x22] @ ascii '': 8.0, '' @ [0x22] @ ascii ''reasoning'' @ [0x22] @ ascii '': ''
           @ [0x22, 0x6280, 0x672F, 0x65B9, 0x6848, 0x6210, 0x719F, 0x53EF, 0x9760]
           @ ascii '','' @ [0x5B9E, 0x65BD, 0x98CE, 0x9669, 0x8F83, 0x4F4E, 0x22] @ ascii '', ''
           @ [0x22] @ ascii ''suggestions'' @ [0x22] @ ascii '': [''
           @ [0x22, 0x8BC4, 0x4F30, 0x6027, 0x80FD, 0x74F6, 0x9888, 0x22] @ ascii '', ''
           @ [0x22, 0x5236, 0x5B9A, 0x6269, 0x5BB9, 0x7B56, 0x7565, 0x22] @ ascii '']},''
           @ [0xA] @ ascii ''    {'' @ [0x22] @ ascii ''dimension'' @ [0x22] @ ascii '': ''
           @ [0x22, 0x8D28, 0x91CF, 0x22] @ ascii '', '' @ [0x22] @ ascii ''score'' @ [0x22]
           @ ascii '': 7.5, '' @ [0x22] @ ascii ''reasoning'' @ [0x22] @ ascii '': ''
           @ [0x22, 0x6280, 0x672F, 0x6587, 0x6863, 0x89C4, 0x8303] @ ascii '',''
           @ [0x4F46, 0x53EF, 0x89C6, 0x5316, 0x4E0D, 0x8DB3, 0x22] @ ascii '', '' @ [0x22]
           @ ascii ''suggestions'' @ [0x22] @ ascii '': [''
           @ [0x22, 0x589E, 0x52A0, 0x67B6, 0x6784, 0x56FE, 0x22] @ ascii '', ''
           @ [0x22, 0x5B8C, 0x5584] @ ascii ''API'' @ [0x6587, 0x6863, 0x22] @ ascii '']},''
           @ [0xA] @ ascii ''    {'' @ [0x22] @ ascii ''dimension'' @ [0x22] @ ascii '': ''
           @ [0x22, 0x76F8, 0x5173, 0x6027, 0x22] @ ascii '', '' @ [0x22] @ ascii ''score''
           @ [0x22] @ ascii '': 8.3, '' @ [0x22] @ ascii ''reasoning'' @ [0x22] @ ascii '': ''
           @ [0x22, 0x6280, 0x672F, 0x9009, 0x578B, 0x7B26, 0x5408, 0x9879, 0x76EE, 0x9700]
           @ [0x6C42, 0x22] @ ascii '', '' @ [0x22] @ ascii ''suggestions'' @ [0x22]
           @ ascii '': [''
           @ [0x22, 0x4F18, 0x5316, 0x6280, 0x672F, 0x6808, 0x5339, 0x914D, 0x5EA6, 0x22]
           @ ascii '']}'' @ [0xA] @ ascii ''  ],'' @ [0xA] @ ascii ''  '' @ [0x22]
           @ ascii ''overall_score'' @ [0x22] @ ascii '': 7.7,'' @ [0xA] @ ascii ''  '' @ [0x22]
           @ ascii ''summary_critique'' @ [0x22] @ ascii '': ''
           @ [0x22, 0x6280, 0x672F, 0x65B9, 0x6848, 0x6574, 0x4F53, 0x7A33, 0x5065, 0x53EF]
           @ [0x9760] @ ascii '','' @ [0x67B6, 0x6784, 0x8BBE, 0x8BA1, 0x5408, 0x7406]
           @ ascii '','' @ [0x903B, 0x8F91, 0x4E25, 0x5BC6] @ ascii ''.''
           @ [0x5728, 0x53EF, 0x884C, 0x6027, 0x548C, 0x76F8, 0x5173, 0x6027, 0x65B9, 0x9762]
           @ [0x8868, 0x73B0, 0x4F18, 0x79C0] @ ascii '',''
           @ [0x4F46, 0x521B, 0x65B0, 0x6027, 0x6709, 0x5F85, 0x63D0, 0x5347] @ ascii ''.''
           @ [0x5EFA, 0x8BAE, 0x5F15, 0x5165, 0x66F4, 0x591A, 0x524D, 0x6CBF, 0x6280, 0x672F]
           @ ascii '','' @ [0x5B8C, 0x5584, 0x90E8, 0x7F72, 0x8FD0, 0x7EF4, 0x65B9, 0x6848]
           @ ascii '',''
           @ [0x589E, 0x5F3A, 0x6587, 0x6863, 0x7684, 0x53EF, 0x89C6, 0x5316, 0x8868, 0x8FBE]
           @ ascii ''.'' @ [0x22] @ ascii '','' @ [0xA] @ ascii ''  '' @ [0x22]
           @ ascii ''improvement_suggestions'' @ [0x22] @ ascii '': [''
           @ [0x22, 0x63A2, 0x7D22, 0x5FAE, 0x670D, 0x52A1, 0x67B6, 0x6784, 0x7684, 0x521B]
           @ [0x65B0, 0x5B9E, 0x8DF5, 0x22] @ ascii '', ''
           @ [0x22, 0x8865, 0x5145, 0x5B8C, 0x6574, 0x7684, 0x90E8, 0x7F72, 0x548C, 0x8FD0]
           @ [0x7EF4, 0x65B9, 0x6848, 0x22] @ ascii '', ''
           @ [0x22, 0x589E, 0x52A0, 0x7CFB, 0x7EDF, 0x67B6, 0x6784, 0x56FE, 0x548C, 0x6D41]
           @ [0x7A0B, 0x56FE, 0x22] @ ascii '', ''
           @ [0x22, 0x5EFA, 0x7ACB, 0x6027, 0x80FD, 0x76D1, 0x63A7, 0x548C, 0x544A, 0x8B66]
           @ [0x4F53, 0x7CFB, 0x22] @ ascii '']'' @ [0xA] @ ascii ''}'')),
      ([0x4EA7, 0x54C1, 0x8BC4, 0x4F30],
       (ascii ''{'' @ [0xA] @ ascii ''  '' @ [0x22] @ ascii ''dimension_scores'' @ [0x22]
           @ ascii '': ['' @ [0xA] @ ascii ''    {'' @ [0x22] @ ascii ''dimension'' @ [0x22]
           @ ascii '': '' @ [0x22, 0x521B, 0x65B0, 0x6027, 0x22] @ ascii '', '' @ [0x22]
           @ ascii ''score'' @ [0x22] @ ascii '': 8.0, '' @ [0x22] @ ascii ''reasoning''
           @ [0x22] @ ascii '': '' @ [0x22, 0x4EA7, 0x54C1, 0x7406, 0x5FF5, 0x65B0, 0x9896]
           @ ascii '',''
           @ [0x7528, 0x6237, 0x4F53, 0x9A8C, 0x6709, 0x521B, 0x65B0, 0x70B9, 0x22]
           @ ascii '', '' @ [0x22] @ ascii ''suggestions'' @ [0x22] @ ascii '': [''
           @ [0x22, 0x6DF1, 0x5316, 0x5DEE, 0x5F02, 0x5316, 0x7279, 0x6027, 0x22] @ ascii '', ''
           @ [0x22, 0x63A2, 0x7D22, 0x65B0, 0x4EA4, 0x4E92, 0x6A21, 0x5F0F, 0x22]
           @ ascii '']},'' @ [0xA] @ ascii ''    {'' @ [0x22] @ ascii ''dimension'' @ [0x22]
           @ ascii '': '' @ [0x22, 0x903B, 0x8F91, 0x6027, 0x22] @ ascii '', '' @ [0x22]
           @ ascii ''score'' @ [0x22] @ ascii '': 7.5, '' @ [0x22] @ ascii ''reasoning''
           @ [0x22] @ ascii '': ''
           @ [0x22, 0x4EA7, 0x54C1, 0x903B, 0x8F91, 0x57FA, 0x672C, 0x6E05, 0x6670]
           @ ascii '',''
           @ [0x4F46, 0x90E8, 0x5206, 0x6D41, 0x7A0B, 0x9700, 0x4F18, 0x5316, 0x22]
           @ ascii '', '' @ [0x22] @ ascii ''suggestions'' @ [0x22] @ ascii '': [''
           @ [0x22, 0x7B80, 0x5316, 0x7528, 0x6237, 0x64CD, 0x4F5C, 0x6D41, 0x7A0B, 0x22]
           @ ascii '', '' @ [0x22, 0x4F18, 0x5316, 0x4FE1, 0x606F, 0x67B6, 0x6784, 0x22]
           @ ascii '']},'' @ [0xA] @ ascii ''    {'' @ [0x22] @ ascii ''dimension'' @ [0x22]
           @ ascii '': '' @ [0x22, 0x5B8C, 0x6574, 0x6027, 0x22] @ ascii '', '' @ [0x22]
           @ ascii ''score'' @ [0x22] @ ascii '': 6.9, '' @ [0x22] @ ascii ''reasoning''
           @ [0x22] @ ascii '': '' @ [0x22, 0x6838, 0x5FC3, 0x529F, 0x80FD, 0x5B8C, 0x5907]
           @ ascii '',''
           @ [0x4F46, 0x7F3A, 0x5C11, 0x8FB9, 0x754C, 0x573A, 0x666F, 0x8003, 0x8651, 0x22]
           @ ascii '', '' @ [0x22] @ ascii ''suggestions'' @ [0x22] @ ascii '': [''
           @ [0x22, 0x8865, 0x5145, 0x5F02, 0x5E38, 0x573A, 0x666F, 0x5904, 0x7406, 0x22]
           @ ascii '', ''
           @ [0x22, 0x5B8C, 0x5584, 0x7528, 0x6237, 0x53CD, 0x9988, 0x673A, 0x5236, 0x22]
           @ ascii '']},'' @ [0xA] @ ascii ''    {'' @ [0x22] @ ascii ''dimension'' @ [0x22]
           @ ascii '': '' @ [0x22, 0x53EF, 0x884C, 0x6027, 0x22] @ ascii '', '' @ [0x22]
           @ ascii ''score'' @ [0x22] @ ascii '': 7.8, '' @ [0x22] @ ascii ''reasoning''
           @ [0x22] @ ascii '': '' @ [0x22, 0x4EA7, 0x54C1, 0x65B9, 0x6848, 0x53EF, 0x884C]
           @ ascii '','' @ [0x7B26, 0x5408, 0x5E02, 0x573A, 0x9700, 0x6C42, 0x22] @ ascii '', ''
           @ [0x22] @ ascii ''suggestions'' @ [0x22] @ ascii '': [''
           @ [0x22, 0x8BC4, 0x4F30, 0x5F00, 0x53D1, 0x6210, 0x672C, 0x22] @ ascii '', ''
           @ [0x22, 0x5236, 0x5B9A] @ ascii ''MVP'' @ [0x65B9, 0x6848, 0x22] @ ascii '']},''
           @ [0xA] @ ascii ''    {'' @ [0x22] @ ascii ''dimension'' @ [0x22] @ ascii '': ''
           @ [0x22, 0x8D28, 0x91CF, 0x22] @ ascii '', '' @ [0x22] @ ascii ''score'' @ [0x22]
           @ ascii '': 7.3, '' @ [0x22] @ ascii ''reasoning'' @ [0x22] @ ascii '': ''
           @ [0x22, 0x4EA7, 0x54C1, 0x8BBE, 0x8BA1, 0x4E13, 0x4E1A] @ ascii '',''
           @ [0x4F46, 0x7EC6, 0x8282, 0x9700, 0x6253, 0x78E8, 0x22] @ ascii '', '' @ [0x22]
           @ ascii ''suggestions'' @ [0x22] @ ascii '': [''
           @ [0x22, 0x4F18, 0x5316, 0x754C, 0x9762, 0x8BBE, 0x8BA1, 0x22] @ ascii '', ''
           @ [0x22, 0x5B8C, 0x5584, 0x4EA4, 0x4E92, 0x7EC6, 0x8282, 0x22] @ ascii '']},''
           @ [0xA] @ ascii ''    {'' @ [0x22] @ ascii ''dimension'' @ [0x22] @ ascii '': ''
           @ [0x22, 0x76F8, 0x5173, 0x6027, 0x22] @ ascii '', '' @ [0x22] @ ascii ''score''
           @ [0x22] @ ascii '': 8.7, '' @ [0x22] @ ascii ''reasoning'' @ [0x22] @ ascii '': ''
           @ [0x22, 0x9AD8, 0x5EA6, 0x7B26, 0x5408, 0x7528, 0x6237, 0x9700, 0x6C42, 0x548C]
           @ [0x5E02, 0x573A, 0x5B9A, 0x4F4D, 0x22] @ ascii '', '' @ [0x22]
           @ ascii ''suggestions'' @ [0x22] @ ascii '': [''
           @ [0x22, 0x52A0, 0x5F3A, 0x7528, 0x6237, 0x753B, 0x50CF, 0x5206, 0x6790, 0x22]
           @ ascii '']}'' @ [0xA] @ ascii ''  ],'' @ [0xA] @ ascii ''  '' @ [0x22]
           @ ascii ''overall_score'' @ [0x22] @ ascii '': 7.7,'' @ [0xA] @ ascii ''  '' @ [0x22]
           @ ascii ''summary_critique'' @ [0x22] @ ascii '': ''
           @ [0x22, 0x4EA7, 0x54C1, 0x65B9, 0x6848, 0x521B, 0x65B0, 0x6027, 0x8F83, 0x5F3A]
           @ ascii '','' @ [0x5E02, 0x573A, 0x5B9A, 0x4F4D, 0x51C6, 0x786E] @ ascii '',''
           @ [0x7528, 0x6237, 0x9700, 0x6C42, 0x5339, 0x914D, 0x5EA6, 0x9AD8] @ ascii ''.''
           @ [0x5728, 0x521B, 0x65B0, 0x6027, 0x548C, 0x76F8, 0x5173, 0x6027, 0x65B9, 0x9762]
           @ [0x8868, 0x73B0, 0x7A81, 0x51FA] @ ascii '',''
           @ [0x4F46, 0x5728, 0x5B8C, 0x6574, 0x6027, 0x548C, 0x7EC6, 0x8282, 0x6253, 0x78E8]
           @ [0x65B9, 0x9762, 0x9700, 0x8981, 0x52A0, 0x5F3A] @ ascii ''.''
           @ [0x5EFA, 0x8BAE, 0x6DF1, 0x5316, 0x4EA7, 0x54C1, 0x5DEE, 0x5F02, 0x5316, 0x7279]
           @ [0x6027] @ ascii '',''
           @ [0x5B8C, 0x5584, 0x8FB9, 0x754C, 0x573A, 0x666F, 0x5904, 0x7406] @ ascii '',''
           @ [0x4F18, 0x5316, 0x7528, 0x6237, 0x4F53, 0x9A8C, 0x7EC6, 0x8282] @ ascii ''.''
           @ [0x22] @ ascii '','' @ [0xA] @ ascii ''  '' @ [0x22]
           @ ascii ''improvement_suggestions'' @ [0x22] @ ascii '': [''
           @ [0x22, 0x6DF1, 0x5316, 0x4EA7, 0x54C1, 0x5DEE, 0x5F02, 0x5316, 0x7ADE, 0x4E89]
           @ [0x4F18, 0x52BF, 0x22] @ ascii '', ''
           @ [0x22, 0x5B8C, 0x5584, 0x7528, 0x6237, 0x573A, 0x666F, 0x548C, 0x8FB9, 0x754C]
           @ [0x60C5, 0x51B5, 0x5904, 0x7406, 0x22] @ ascii '', ''
           @ [0x22, 0x4F18, 0x5316, 0x4EA7, 0x54C1, 0x539F, 0x578B, 0x548C, 0x4EA4, 0x4E92]
           @ [0x8BBE, 0x8BA1, 0x22] @ ascii '', ''
           @ [0x22, 0x5EFA, 0x7ACB, 0x7528, 0x6237, 0x53CD, 0x9988, 0x548C, 0x8FED, 0x4EE3]
           @ [0x673A, 0x5236, 0x22] @ ascii '']'' @ [0xA] @ ascii ''}''))]"

text \<open>The payload for every other evaluator: its text before and after the role.\<close>

definition mock_default_before_role :: pystr where
  "mock_default_before_role =
     (ascii ''{'' @ [0xA] @ ascii ''  '' @ [0x22] @ ascii ''dimension_scores'' @ [0x22]
         @ ascii '': ['' @ [0xA] @ ascii ''    {'' @ [0x22] @ ascii ''dimension'' @ [0x22]
         @ ascii '': '' @ [0x22, 0x521B, 0x65B0, 0x6027, 0x22] @ ascii '', '' @ [0x22]
         @ ascii ''score'' @ [0x22] @ ascii '': 7.0, '' @ [0x22] @ ascii ''reasoning'' @ [0x22]
         @ ascii '': '' @ [0x22, 0x5177, 0x6709, 0x4E00, 0x5B9A, 0x521B, 0x65B0, 0x6027]
         @ ascii '','' @ [0x4F46, 0x7A81, 0x7834, 0x6027, 0x4E0D, 0x591F, 0x22] @ ascii '', ''
         @ [0x22] @ ascii ''suggestions'' @ [0x22] @ ascii '': [''
         @ [0x22, 0x63A2, 0x7D22, 0x66F4, 0x5177, 0x7A81, 0x7834, 0x6027, 0x7684, 0x65B9]
         @ [0x6848, 0x22] @ ascii '']},'' @ [0xA] @ ascii ''    {'' @ [0x22]
         @ ascii ''dimension'' @ [0x22] @ ascii '': '' @ [0x22, 0x903B, 0x8F91, 0x6027, 0x22]
         @ ascii '', '' @ [0x22] @ ascii ''score'' @ [0x22] @ ascii '': 7.5, '' @ [0x22]
         @ ascii ''reasoning'' @ [0x22] @ ascii '': ''
         @ [0x22, 0x903B, 0x8F91, 0x57FA, 0x672C, 0x6E05, 0x6670] @ ascii '',''
         @ [0x8BBA, 0x8BC1, 0x8F83, 0x4E3A, 0x5408, 0x7406, 0x22] @ ascii '', '' @ [0x22]
         @ ascii ''suggestions'' @ [0x22] @ ascii '': [''
         @ [0x22, 0x52A0, 0x5F3A, 0x903B, 0x8F91, 0x94FE, 0x6761, 0x7684, 0x5B8C, 0x6574]
         @ [0x6027, 0x22] @ ascii '']},'' @ [0xA] @ ascii ''    {'' @ [0x22]
         @ ascii ''dimension'' @ [0x22] @ ascii '': '' @ [0x22, 0x5B8C, 0x6574, 0x6027, 0x22]
         @ ascii '', '' @ [0x22] @ ascii ''score'' @ [0x22] @ ascii '': 6.8, '' @ [0x22]
         @ ascii ''reasoning'' @ [0x22] @ ascii '': ''
         @ [0x22, 0x4E3B, 0x8981, 0x5185, 0x5BB9, 0x5B8C, 0x5907] @ ascii '',''
         @ [0x7EC6, 0x8282, 0x6709, 0x5F85, 0x8865, 0x5145, 0x22] @ ascii '', '' @ [0x22]
         @ ascii ''suggestions'' @ [0x22] @ ascii '': [''
         @ [0x22, 0x8865, 0x5145, 0x5B9E, 0x65BD, 0x7EC6, 0x8282, 0x548C, 0x8FB9, 0x754C]
         @ [0x60C5, 0x51B5, 0x22] @ ascii '']},'' @ [0xA] @ ascii ''    {'' @ [0x22]
         @ ascii ''dimension'' @ [0x22] @ ascii '': '' @ [0x22, 0x53EF, 0x884C, 0x6027, 0x22]
         @ ascii '', '' @ [0x22] @ ascii ''score'' @ [0x22] @ ascii '': 7.2, '' @ [0x22]
         @ ascii ''reasoning'' @ [0x22] @ ascii '': ''
         @ [0x22, 0x65B9, 0x6848, 0x57FA, 0x672C, 0x53EF, 0x884C] @ ascii '',''
         @ [0x9700, 0x8003, 0x8651, 0x5B9E, 0x9645, 0x7EA6, 0x675F, 0x22] @ ascii '', ''
         @ [0x22] @ ascii ''suggestions'' @ [0x22] @ ascii '': [''
         @ [0x22, 0x8BC4, 0x4F30, 0x5B9E, 0x65BD, 0x96BE, 0x5EA6, 0x548C, 0x8D44, 0x6E90]
         @ [0x9700, 0x6C42, 0x22] @ ascii '']},'' @ [0xA] @ ascii ''    {'' @ [0x22]
         @ ascii ''dimension'' @ [0x22] @ ascii '': '' @ [0x22, 0x8D28, 0x91CF, 0x22]
         @ ascii '', '' @ [0x22] @ ascii ''score'' @ [0x22] @ ascii '': 7.3, '' @ [0x22]
         @ ascii ''reasoning'' @ [0x22] @ ascii '': ''
         @ [0x22, 0x4E13, 0x4E1A, 0x6C34, 0x51C6, 0x826F, 0x597D] @ ascii '',''
         @ [0x8868, 0x8FBE, 0x6E05, 0x6670, 0x22] @ ascii '', '' @ [0x22]
         @ ascii ''suggestions'' @ [0x22] @ ascii '': [''
         @ [0x22, 0x4F18, 0x5316, 0x5185, 0x5BB9, 0x7ED3, 0x6784, 0x548C, 0x8868, 0x8FBE]
         @ [0x65B9, 0x5F0F, 0x22] @ ascii '']},'' @ [0xA] @ ascii ''    {'' @ [0x22]
         @ ascii ''dimension'' @ [0x22] @ ascii '': '' @ [0x22, 0x76F8, 0x5173, 0x6027, 0x22]
         @ ascii '', '' @ [0x22] @ ascii ''score'' @ [0x22] @ ascii '': 8.0, '' @ [0x22]
         @ ascii ''reasoning'' @ [0x22] @ ascii '': ''
         @ [0x22, 0x4E0E, 0x4EFB, 0x52A1, 0x9700, 0x6C42, 0x5339, 0x914D, 0x5EA6, 0x8F83]
         @ [0x9AD8, 0x22] @ ascii '', '' @ [0x22] @ ascii ''suggestions'' @ [0x22]
         @ ascii '': [''
         @ [0x22, 0x8FDB, 0x4E00, 0x6B65, 0x5BF9, 0x9F50, 0x5177, 0x4F53, 0x9700, 0x6C42]
         @ [0x22] @ ascii '']}'' @ [0xA] @ ascii ''  ],'' @ [0xA] @ ascii ''  '' @ [0x22]
         @ ascii ''overall_score'' @ [0x22] @ ascii '': 7.3,'' @ [0xA] @ ascii ''  '' @ [0x22]
         @ ascii ''summary_critique'' @ [0x22] @ ascii '': '' @ [0x22, 0x4F5C, 0x4E3A])"

definition mock_default_after_role :: pystr where
  "mock_default_after_role =
     (ascii '',''
         @ [0x6211, 0x8BA4, 0x4E3A, 0x8FD9, 0x4E2A, 0x65B9, 0x6848, 0x6574, 0x4F53, 0x8D28]
         @ [0x91CF, 0x826F, 0x597D] @ ascii '',''
         @ [0x4E0E, 0x4EFB, 0x52A1, 0x9700, 0x6C42, 0x5339, 0x914D, 0x5EA6, 0x9AD8]
         @ ascii '','' @ [0x903B, 0x8F91, 0x7ED3, 0x6784, 0x57FA, 0x672C, 0x6E05, 0x6670]
         @ ascii ''.''
         @ [0x4E3B, 0x8981, 0x4F18, 0x52BF, 0x5728, 0x4E8E, 0x76F8, 0x5173, 0x6027, 0x548C]
         @ [0x4E13, 0x4E1A, 0x6027] @ ascii '',''
         @ [0x4F46, 0x5728, 0x521B, 0x65B0, 0x6027, 0x548C, 0x5B8C, 0x6574, 0x6027, 0x65B9]
         @ [0x9762, 0x8FD8, 0x6709, 0x6539, 0x8FDB, 0x7A7A, 0x95F4] @ ascii ''.''
         @ [0x5EFA, 0x8BAE, 0x52A0, 0x5F3A, 0x7A81, 0x7834, 0x6027, 0x601D, 0x7EF4]
         @ ascii '','' @ [0x5B8C, 0x5584, 0x5B9E, 0x65BD, 0x7EC6, 0x8282] @ ascii ''.'' @ [0x22]
         @ ascii '','' @ [0xA] @ ascii ''  '' @ [0x22] @ ascii ''improvement_suggestions''
         @ [0x22] @ ascii '': [''
         @ [0x22, 0x589E, 0x5F3A, 0x65B9, 0x6848, 0x7684, 0x521B, 0x65B0, 0x6027, 0x548C]
         @ [0x524D, 0x77BB, 0x6027, 0x22] @ ascii '', ''
         @ [0x22, 0x8865, 0x5145, 0x8BE6, 0x7EC6, 0x7684, 0x5B9E, 0x65BD, 0x8BA1, 0x5212]
         @ [0x548C, 0x98CE, 0x9669, 0x8BC4, 0x4F30, 0x22] @ ascii '', ''
         @ [0x22, 0x4F18, 0x5316, 0x5185, 0x5BB9, 0x7ED3, 0x6784, 0x548C, 0x8868, 0x8FBE]
         @ [0x8D28, 0x91CF, 0x22] @ ascii '', ''
         @ [0x22, 0x52A0, 0x5F3A, 0x4E0E, 0x4EFB, 0x52A1, 0x9700, 0x6C42, 0x7684, 0x7CBE]
         @ [0x786E, 0x5BF9, 0x5E94, 0x22] @ ascii '']'' @ [0xA] @ ascii ''}'')"

definition generate_mock_critique :: "Agent \<Rightarrow> pystr" where
  "generate_mock_critique critic_agent =
     (case find (\<lambda>p. py_in_str (fst p) (name critic_agent)
                       \<or> py_in_str (fst p) (role critic_agent)) mock_critiques of
        Some p \<Rightarrow> snd p
      | None \<Rightarrow> mock_default_before_role @ role critic_agent @ mock_default_after_role)"

text \<open>
  \<^verbatim>\<open>_call_llm_for_critique\<close>. \<open>llm_response\<close> is what follows the awaited call of the
  collaborator: the stripped response; the simulated evaluator when the call raised an
  \<^verbatim>\<open>Exception\<close> or returned something that has no \<^verbatim>\<open>strip\<close>; and a
  \<^verbatim>\<open>CancelledError\<close> goes on to the caller, since \<^verbatim>\<open>except Exception\<close> does not catch
  it.
\<close>

definition llm_response :: "Agent \<Rightarrow> base_exception + pyval \<Rightarrow> base_exception + pystr" where
  "llm_response critic_agent response =
     (case response of
        Inr (PStr s) \<Rightarrow> Inr (py_strip s)
      | Inr _ \<Rightarrow> Inr (generate_mock_critique critic_agent)
      | Inl (Exception_of e) \<Rightarrow> Inr (generate_mock_critique critic_agent)
      | Inl (CancelledError m) \<Rightarrow> Inl (CancelledError m))"

definition call_llm_for_critique ::
    "GameCriticizer \<Rightarrow> pystr \<Rightarrow> Agent \<Rightarrow> base_exception + pystr" where
  "call_llm_for_critique self prompt critic_agent =
     (case naga_conversation self of
        None \<Rightarrow> Inr (generate_mock_critique critic_agent)
      | Some conversation \<Rightarrow> llm_response critic_agent (snd (conversation prompt)))"

section \<open>The score normalizer\<close>

text \<open>The text handed to \<^verbatim>\<open>json.loads\<close>: the fenced block, else the text from the first
  opening brace to the last closing one when the stripped text does not start with a
  brace, else the stripped text.\<close>

definition extract_json :: "pylib \<Rightarrow> pystr \<Rightarrow> pystr" where
  "extract_json lib critique_result =
     (case re_search_json_block lib critique_result of
        Some group1 \<Rightarrow> group1
      | None \<Rightarrow>
          (let json_str = py_strip critique_result
           in if \<not> py_startswith json_str (ascii ''{'') then
                (let start = py_find json_str 123;
                     stop = py_rfind json_str 125 + 1
                 in if start \<noteq> - 1 \<and> stop > start then py_slice json_str start stop
                    else json_str)
              else json_str))"

text \<open>One entry of \<^verbatim>\<open>dimension_scores\<close>: the body of the inner \<^verbatim>\<open>try\<close>.\<close>

definition parse_dimension_score :: "pylib \<Rightarrow> pyval \<Rightarrow> error + CriticScore" where
  "parse_dimension_score lib score_data =
     (case py_getitem score_data (ascii ''dimension'') of
        Inl e \<Rightarrow> Inl e
      | Inr label \<Rightarrow>
     (case CriticDimension_of label of
        Inl e \<Rightarrow> Inl e
      | Inr d \<Rightarrow>
     (case py_getitem score_data (ascii ''score'') of
        Inl e \<Rightarrow> Inl e
      | Inr raw_score \<Rightarrow>
     (case py_float lib raw_score of
        Inl e \<Rightarrow> Inl e
      | Inr s \<Rightarrow>
     (case py_get score_data (ascii ''reasoning'') (PStr []) of
        Inl e \<Rightarrow> Inl e
      | Inr r \<Rightarrow>
     (case py_get score_data (ascii ''suggestions'') (PList []) of
        Inl e \<Rightarrow> Inl e
      | Inr g \<Rightarrow>
          Inr \<lparr>dimension = d, score = s, reasoning = r, suggestions = g\<rparr>))))))"

text \<open>The loop over the entries: a \<^verbatim>\<open>ValueError\<close> or \<^verbatim>\<open>KeyError\<close> skips the entry,
  any other exception leaves the loop.\<close>

fun parse_dimension_scores ::
    "pylib \<Rightarrow> pyval list \<Rightarrow> CriticScore list \<Rightarrow> error + CriticScore list" where
  "parse_dimension_scores lib [] scores = Inr scores"
| "parse_dimension_scores lib (score_data # rest) scores =
     (case parse_dimension_score lib score_data of
        Inr s \<Rightarrow> parse_dimension_scores lib rest (scores @ [s])
      | Inl e \<Rightarrow>
          if exc_kind_of e = ValueError \<or> exc_kind_of e = KeyError
          then parse_dimension_scores lib rest scores
          else Inl e)"

text \<open>The statements that fill \<^verbatim>\<open>dimension_scores\<close>: nothing without that key,
  else the loop over what the key holds.\<close>

definition parse_dimension_field :: "pylib \<Rightarrow> pyval \<Rightarrow> error + CriticScore list" where
  "parse_dimension_field lib data =
     (case py_contains (ascii ''dimension_scores'') data of
        Inl e \<Rightarrow> Inl e
      | Inr present \<Rightarrow>
          if present then
            (case py_getitem data (ascii ''dimension_scores'') of
               Inl e \<Rightarrow> Inl e
             | Inr entries \<Rightarrow>
                 (case py_iter entries of
                    Inl e \<Rightarrow> Inl e
                  | Inr items \<Rightarrow> parse_dimension_scores lib items []))
          else Inr [])"

text \<open>What follows \<^verbatim>\<open>json.loads\<close> in the body of the outer \<^verbatim>\<open>try\<close>.\<close>

definition parse_critique_data ::
    "pylib \<Rightarrow> pyval \<Rightarrow> error + (CriticScore list \<times> real \<times> pyval \<times> pyval)" where
  "parse_critique_data lib data =
     (case parse_dimension_field lib data of
        Inl e \<Rightarrow> Inl e
      | Inr scores \<Rightarrow>
     (case py_get data (ascii ''overall_score'') (PFloat 7) of
        Inl e \<Rightarrow> Inl e
      | Inr raw_overall \<Rightarrow>
     (case py_float lib raw_overall of
        Inl e \<Rightarrow> Inl e
      | Inr overall \<Rightarrow>
     (case py_get data (ascii ''summary_critique'') (PStr [0x6279, 0x5224, 0x89E3, 0x6790, 0x5931, 0x8D25]) of
        Inl e \<Rightarrow> Inl e
      | Inr summary \<Rightarrow>
     (case py_get data (ascii ''improvement_suggestions'') (PList []) of
        Inl e \<Rightarrow> Inl e
      | Inr suggestions_list \<Rightarrow>
          Inr (scores, overall, summary, suggestions_list))))))"

definition parse_critique_body ::
    "pylib \<Rightarrow> pystr \<Rightarrow> error + (CriticScore list \<times> real \<times> pyval \<times> pyval)" where
  "parse_critique_body lib critique_result =
     (case json_loads lib (extract_json lib critique_result) of
        Inl e \<Rightarrow> Inl e
      | Inr data \<Rightarrow> parse_critique_data lib data)"

definition get_default_critique_result :: "CriticScore list \<times> real \<times> pyval \<times> pyval" where
  "get_default_critique_result =
     (map (\<lambda>d. \<lparr>dimension = d, score = 7,
                 reasoning = PStr ([0x9ED8, 0x8BA4] @ dimension_value d @ [0x8BC4, 0x5206]),
                 suggestions = PList [PStr ([0x6539, 0x8FDB] @ dimension_value d @ [0x76F8, 0x5173, 0x65B9, 0x9762])]\<rparr>)
        CriticDimension_members,
      7,
      PStr ([0x6279, 0x5224, 0x5206, 0x6790, 0x8FC7, 0x7A0B, 0x51FA, 0x73B0, 0x95EE, 0x9898]
          @ ascii '','' @ [0x4F7F, 0x7528, 0x9ED8, 0x8BA4, 0x8BC4, 0x5206]),
      PList [PStr [0x5EFA, 0x8BAE, 0x91CD, 0x65B0, 0x8FDB, 0x884C, 0x8BE6, 0x7EC6, 0x5206, 0x6790], PStr [0x4F18, 0x5316, 0x5185, 0x5BB9, 0x8D28, 0x91CF], PStr [0x52A0, 0x5F3A, 0x4E13, 0x4E1A, 0x6027]])"

text \<open>\<^verbatim>\<open>_parse_critique_result\<close>: the body, and the default result for any exception
  of the body. (The arguments \<^verbatim>\<open>actor_output\<close> and \<^verbatim>\<open>task\<close> are not used.)\<close>

definition parse_critique_result ::
    "pylib \<Rightarrow> pystr \<Rightarrow> CriticScore list \<times> real \<times> pyval \<times> pyval" where
  "parse_critique_result lib critique_result =
     (case parse_critique_body lib critique_result of
        Inr result \<Rightarrow> result
      | Inl e \<Rightarrow> get_default_critique_result)"

section \<open>The evaluation orchestrator\<close>

text \<open>\<^verbatim>\<open>f"{actor_output.agent_id}_{actor_output.iteration}"\<close>.\<close>

definition target_id :: "ActorOutput \<Rightarrow> pystr" where
  "target_id actor_output =
     ao_agent_id actor_output @ ascii ''_'' @ py_str_int (ao_iteration actor_output)"

text \<open>
  \<^verbatim>\<open>critique_output\<close> up to the call of the collaborator, the only place where the
  coroutine can be suspended: the clock is read, the shared counter is incremented and the
  prompt is built.
\<close>

definition critique_output_enter ::
    "pylib \<Rightarrow> GameCriticizer \<Rightarrow> ActorOutput \<Rightarrow> Agent \<Rightarrow> Task \<Rightarrow> CriticOutput list option
     \<Rightarrow> GameCriticizer \<times> real \<times> (error + pystr)" where
  "critique_output_enter lib self actor_output critic_agent task previous_critiques =
     (let start_time = time_time lib (clock_reads self);
          self1 = self\<lparr>current_iteration := current_iteration self + 1,
                       clock_reads := clock_reads self + 1\<rparr>
      in (self1, start_time,
          build_critique_prompt lib actor_output critic_agent task previous_critiques))"

text \<open>
  \<^verbatim>\<open>critique_output\<close> from the evaluator's text on: the text is normalized, the
  satisfaction is computed, and the result, stamped with the counter as it stands now, is
  appended to the history.
\<close>

definition critique_output_finish ::
    "pylib \<Rightarrow> GameCriticizer \<Rightarrow> real \<Rightarrow> ActorOutput \<Rightarrow> Agent \<Rightarrow> Task
     \<Rightarrow> CriticOutput list option \<Rightarrow> pystr \<Rightarrow> GameCriticizer \<times> CriticOutput" where
  "critique_output_finish lib self start_time actor_output critic_agent task
       previous_critiques critique_result =
     (case parse_critique_result lib critique_result of
        (scores, overall, summary, suggestions_list) \<Rightarrow>
          (let satisfaction = calculate_satisfaction_score previous_critiques scores;
               critique =
                 \<lparr>target_output_id = target_id actor_output,
                  critic_agent_id = agent_id critic_agent,
                  overall_score = overall,
                  satisfaction_score = satisfaction,
                  dimension_scores = scores,
                  summary_critique = summary,
                  improvement_suggestions = suggestions_list,
                  critique_time = time_time lib (clock_reads self) - start_time,
                  iteration = current_iteration self,
                  metadata =
                    [(ascii ''target_agent_name'',
                      (case map_of (ao_metadata actor_output) (ascii ''agent_name'') of
                         Some v \<Rightarrow> v | None \<Rightarrow> PStr (ascii ''unknown''))),
                     (ascii ''critic_agent_name'', PStr (name critic_agent)),
                     (ascii ''task_domain'', PStr (domain task)),
                     (ascii ''has_previous_critiques'',
                      PBool (case previous_critiques of
                               None \<Rightarrow> False | Some prevs \<Rightarrow> length prevs > 0)),
                     (ascii ''content_length'',
                      PInt (int (length (ao_content actor_output))))]\<rparr>
           in (self\<lparr>critique_history := critique_history self @ [critique],
                     clock_reads := clock_reads self + 1\<rparr>,
               critique)))"

text \<open>The handler of \<^verbatim>\<open>except Exception\<close>: the degraded result. It is returned and not
  appended to the history.\<close>

definition critique_output_failed ::
    "pylib \<Rightarrow> GameCriticizer \<Rightarrow> real \<Rightarrow> ActorOutput \<Rightarrow> Agent \<Rightarrow> error
     \<Rightarrow> GameCriticizer \<times> CriticOutput" where
  "critique_output_failed lib self start_time actor_output critic_agent e =
     (self\<lparr>clock_reads := clock_reads self + 1\<rparr>,
      \<lparr>target_output_id = target_id actor_output,
       critic_agent_id = agent_id critic_agent,
       overall_score = 5,
       satisfaction_score = 5,
       dimension_scores = [],
       summary_critique = PStr (([0x6279, 0x5224, 0x8FC7, 0x7A0B, 0x51FA, 0x9519] @ ascii '':'') @ exc_str e),
       improvement_suggestions = PList [PStr [0x5EFA, 0x8BAE, 0x91CD, 0x65B0, 0x8FDB, 0x884C, 0x6279, 0x5224, 0x5206, 0x6790]],
       critique_time = time_time lib (clock_reads self) - start_time,
       iteration = current_iteration self,
       metadata = [(ascii ''error'', PBool True),
                   (ascii ''error_message'', PStr (exc_str e))]\<rparr>)"

text \<open>
  A call of \<^verbatim>\<open>critique_output\<close> that runs alone, from its start to its return or to
  the exception it raises. Its handler catches every \<^verbatim>\<open>Exception\<close>; a
  \<^verbatim>\<open>CancelledError\<close> of the awaited call leaves the coroutine, after the counter was
  incremented.
\<close>

definition critique_output ::
    "pylib \<Rightarrow> GameCriticizer \<Rightarrow> ActorOutput \<Rightarrow> Agent \<Rightarrow> Task \<Rightarrow> CriticOutput list option
     \<Rightarrow> GameCriticizer \<times> (base_exception + CriticOutput)" where
  "critique_output lib self actor_output critic_agent task previous_critiques =
     (case critique_output_enter lib self actor_output critic_agent task previous_critiques of
        (self1, start_time, Inl e) \<Rightarrow>
          (case critique_output_failed lib self1 start_time actor_output critic_agent e of
             (self2, critique) \<Rightarrow> (self2, Inr critique))
      | (self1, start_time, Inr prompt) \<Rightarrow>
          (case call_llm_for_critique self1 prompt critic_agent of
             Inl raised \<Rightarrow> (self1, Inl raised)
           | Inr critique_result \<Rightarrow>
               (case critique_output_finish lib self1 start_time actor_output critic_agent
                       task previous_critiques critique_result of
                  (self2, critique) \<Rightarrow> (self2, Inr critique))))"

section \<open>The batch runner\<close>

text \<open>
  \<^verbatim>\<open>asyncio.gather\<close> starts the coroutines in the order of the list, and each runs until
  it ends or is suspended. A call of \<^verbatim>\<open>critique_output\<close> is suspended only in the
  awaited call of a collaborator, and only when that call yields to the event loop; with
  the simulated evaluator, with a collaborator that answers at once, or when the prompt
  cannot be built, it runs to its end at once. The model takes the awaited responses to
  arrive in the order of the calls, after every coroutine has started.
\<close>

datatype coroutine =
    Ended "base_exception + CriticOutput"
  | Suspended real ActorOutput Agent Task "CriticOutput list option"
      "base_exception + pyval"

text \<open>\<^verbatim>\<open>critique_output\<close> from the response of the collaborator on.\<close>

definition critique_output_resume ::
    "pylib \<Rightarrow> GameCriticizer \<Rightarrow> real \<Rightarrow> ActorOutput \<Rightarrow> Agent \<Rightarrow> Task
     \<Rightarrow> CriticOutput list option \<Rightarrow> base_exception + pyval
     \<Rightarrow> GameCriticizer \<times> (base_exception + CriticOutput)" where
  "critique_output_resume lib self start_time actor_output critic_agent task
       previous_critiques response =
     (case llm_response critic_agent response of
        Inl raised \<Rightarrow> (self, Inl raised)
      | Inr critique_result \<Rightarrow>
          (case critique_output_finish lib self start_time actor_output critic_agent task
                  previous_critiques critique_result of
             (self1, critique) \<Rightarrow> (self1, Inr critique)))"

definition coroutine_start ::
    "pylib \<Rightarrow> GameCriticizer \<Rightarrow> ActorOutput \<Rightarrow> Agent \<Rightarrow> Task \<Rightarrow> CriticOutput list option
     \<Rightarrow> GameCriticizer \<times> coroutine" where
  "coroutine_start lib self actor_output critic_agent task previous_critiques =
     (case critique_output_enter lib self actor_output critic_agent task previous_critiques of
        (self1, start_time, Inl e) \<Rightarrow>
          (case critique_output_failed lib self1 start_time actor_output critic_agent e of
             (self2, critique) \<Rightarrow> (self2, Ended (Inr critique)))
      | (self1, start_time, Inr prompt) \<Rightarrow>
          (case naga_conversation self1 of
             None \<Rightarrow>
               (case critique_output_finish lib self1 start_time actor_output critic_agent
                       task previous_critiques (generate_mock_critique critic_agent) of
                  (self2, critique) \<Rightarrow> (self2, Ended (Inr critique)))
           | Some conversation \<Rightarrow>
               if fst (conversation prompt) then
                 (self1, Suspended start_time actor_output critic_agent task
                           previous_critiques (snd (conversation prompt)))
               else
                 (case critique_output_resume lib self1 start_time actor_output critic_agent
                         task previous_critiques (snd (conversation prompt)) of
                    (self2, result) \<Rightarrow> (self2, Ended result))))"

definition coroutine_resume ::
    "pylib \<Rightarrow> GameCriticizer \<Rightarrow> coroutine
     \<Rightarrow> GameCriticizer \<times> (base_exception + CriticOutput)" where
  "coroutine_resume lib self c =
     (case c of
        Ended result \<Rightarrow> (self, result)
      | Suspended start_time actor_output critic_agent task previous_critiques response \<Rightarrow>
          critique_output_resume lib self start_time actor_output critic_agent task
            previous_critiques response)"

text \<open>The pairs for which \<^verbatim>\<open>batch_critique\<close> creates a task: the nested loops with the
  test that keeps an agent from judging its own output.\<close>

definition critique_pairs :: "ActorOutput list \<Rightarrow> Agent list \<Rightarrow> (ActorOutput \<times> Agent) list" where
  "critique_pairs actor_outputs critic_agents =
     concat (map (\<lambda>actor_output.
                    map (\<lambda>critic_agent. (actor_output, critic_agent))
                      (filter (\<lambda>critic_agent. ao_agent_id actor_output \<noteq> agent_id critic_agent)
                         critic_agents))
               actor_outputs)"

fun start_all ::
    "pylib \<Rightarrow> GameCriticizer \<Rightarrow> (ActorOutput \<times> Agent) list \<Rightarrow> Task
     \<Rightarrow> GameCriticizer \<times> coroutine list" where
  "start_all lib self [] task = (self, [])"
| "start_all lib self (p # rest) task =
     (case coroutine_start lib self (fst p) (snd p) task None of
        (self1, c) \<Rightarrow>
          (case start_all lib self1 rest task of (self2, cs) \<Rightarrow> (self2, c # cs)))"

text \<open>The results as \<^verbatim>\<open>gather\<close> with \<^verbatim>\<open>return_exceptions=True\<close> lists them, in the
  order of the tasks: a critique, or what the task raised.\<close>

fun resume_all ::
    "pylib \<Rightarrow> GameCriticizer \<Rightarrow> coroutine list
     \<Rightarrow> GameCriticizer \<times> (base_exception + CriticOutput) list" where
  "resume_all lib self [] = (self, [])"
| "resume_all lib self (c # cs) =
     (case coroutine_resume lib self c of
        (self1, result) \<Rightarrow>
          (case resume_all lib self1 cs of (self2, results) \<Rightarrow> (self2, result # results)))"

text \<open>
  The loop that fills \<^verbatim>\<open>valid_critiques\<close>: a result that is an instance of
  \<^verbatim>\<open>Exception\<close> is skipped, every other result is appended, also a
  \<^verbatim>\<open>CancelledError\<close>. So the list returned can hold, beside critiques, the
  \<^verbatim>\<open>CancelledError\<close> objects of cancelled tasks.
\<close>

fun valid_critiques ::
    "(base_exception + CriticOutput) list \<Rightarrow> (base_exception + CriticOutput) list" where
  "valid_critiques [] = []"
| "valid_critiques (Inl (Exception_of e) # results) = valid_critiques results"
| "valid_critiques (result # results) = result # valid_critiques results"

definition batch_critique ::
    "pylib \<Rightarrow> GameCriticizer \<Rightarrow> ActorOutput list \<Rightarrow> Agent list \<Rightarrow> Task
     \<Rightarrow> GameCriticizer \<times> (base_exception + CriticOutput) list" where
  "batch_critique lib self actor_outputs critic_agents task =
     (case start_all lib self (critique_pairs actor_outputs critic_agents) task of
        (self1, critique_tasks) \<Rightarrow>
          (case resume_all lib self1 critique_tasks of
             (self2, critique_results) \<Rightarrow> (self2, valid_critiques critique_results)))"

section \<open>The history ledger\<close>

text \<open>\<^verbatim>\<open>c.metadata.get('error', False)\<close>.\<close>

definition metadata_error :: "CriticOutput \<Rightarrow> pyval" where
  "metadata_error c =
     (case map_of (metadata c) (ascii ''error'') of Some v \<Rightarrow> v | None \<Rightarrow> PBool False)"

definition get_critique_statistics :: "GameCriticizer \<Rightarrow> (pystr \<times> pyval) list" where
  "get_critique_statistics self =
     (if critique_history self = [] then
        [(ascii ''total_critiques'', PInt 0),
         (ascii ''average_overall_score'', PInt 0),
         (ascii ''average_satisfaction_score'', PInt 0),
         (ascii ''current_iteration'', PInt (current_iteration self)),
         (ascii ''api_available'', PBool (naga_conversation self \<noteq> None))]
      else
        (let history = critique_history self;
             total_overall = sum_list (map overall_score history);
             total_satisfaction = sum_list (map satisfaction_score history);
             successful_critiques =
               filter (\<lambda>c. \<not> py_truthy (metadata_error c)) history
         in [(ascii ''total_critiques'', PInt (int (length history))),
             (ascii ''successful_critiques'', PInt (int (length successful_critiques))),
             (ascii ''failed_critiques'',
              PInt (int (length history) - int (length successful_critiques))),
             (ascii ''average_overall_score'', PFloat (total_overall / real (length history))),
             (ascii ''average_satisfaction_score'',
              PFloat (total_satisfaction / real (length history))),
             (ascii ''current_iteration'', PInt (current_iteration self)),
             (ascii ''api_available'', PBool (naga_conversation self \<noteq> None)),
             (ascii ''average_critique_time'',
              PFloat (sum_list (map critique_time history) / real (length history)))]))"

definition get_latest_critique :: "GameCriticizer \<Rightarrow> CriticOutput option" where
  "get_latest_critique self =
     (if critique_history self \<noteq> [] then Some (last (critique_history self)) else None)"

definition clear_history :: "GameCriticizer \<Rightarrow> GameCriticizer" where
  "clear_history self = self\<lparr>critique_history := [], current_iteration := 0\<rparr>"

section \<open>The specification's formulations\<close>

text \<open>
  The satisfaction estimator as the specification words it: for each current score, the
  previous evaluation's score for the same dimension, if there is one, gives the delta
  current minus previous; the result is 7 plus the mean of the deltas, clamped to the
  range from 0 to 10.
\<close>

definition clamp :: "real \<Rightarrow> real \<Rightarrow> real \<Rightarrow> real" where
  "clamp x lo hi = (if x < lo then lo else if hi < x then hi else x)"

definition score_deltas :: "CriticScore list \<Rightarrow> CriticScore list \<Rightarrow> real list" where
  "score_deltas prior current =
     concat (map (\<lambda>c. case find (\<lambda>p. dimension p = dimension c) prior of
                         Some p \<Rightarrow> [score c - score p]
                       | None \<Rightarrow> [])
               current)"

definition mean :: "real list \<Rightarrow> real" where
  "mean xs = sum_list xs / real (length xs)"

text \<open>
  The score normalizer as the specification words it. The label of an entry is mapped to
  one of the six dimensions, and an entry whose label matches none is dropped; the score
  is coerced to a float, a missing reasoning is the empty string and missing suggestions
  are the empty list.
\<close>

fun known_label :: "pyval \<Rightarrow> CriticDimension option" where
  "known_label (PStr s) = find (\<lambda>d. dimension_value d = s) CriticDimension_members"
| "known_label v = None"

definition normalized_entry :: "pylib \<Rightarrow> (pystr \<times> pyval) list \<Rightarrow> CriticScore option" where
  "normalized_entry lib kv =
     (case map_of kv (ascii ''dimension'') of
        None \<Rightarrow> None
      | Some label \<Rightarrow>
          (case known_label label of
             None \<Rightarrow> None
           | Some d \<Rightarrow>
               (case map_of kv (ascii ''score'') of
                  None \<Rightarrow> None
                | Some v \<Rightarrow>
                    (case py_float lib v of
                       Inl e \<Rightarrow> None
                     | Inr x \<Rightarrow>
                         Some \<lparr>dimension = d, score = x,
                               reasoning = (case map_of kv (ascii ''reasoning'') of
                                              Some r \<Rightarrow> r | None \<Rightarrow> PStr []),
                               suggestions = (case map_of kv (ascii ''suggestions'') of
                                                Some g \<Rightarrow> g | None \<Rightarrow> PList [])\<rparr>))))"

fun entry_score :: "pylib \<Rightarrow> pyval \<Rightarrow> CriticScore option" where
  "entry_score lib (PDict kv) = normalized_entry lib kv"
| "entry_score lib v = None"

text \<open>The entries the claim about the normalizer speaks of: an object with a label, and
  with a score that can be coerced to a float when the label is a known one.\<close>

fun labelled_entry :: "pylib \<Rightarrow> pyval \<Rightarrow> bool" where
  "labelled_entry lib (PDict kv) =
     (case map_of kv (ascii ''dimension'') of
        None \<Rightarrow> False
      | Some label \<Rightarrow>
          (case known_label label of
             None \<Rightarrow> True
           | Some d \<Rightarrow>
               (case map_of kv (ascii ''score'') of
                  None \<Rightarrow> False
                | Some v \<Rightarrow> \<not> isl (py_float lib v))))"
| "labelled_entry lib v = False"

fun has_known_label :: "pyval \<Rightarrow> bool" where
  "has_known_label (PDict kv) =
     (case map_of kv (ascii ''dimension'') of
        None \<Rightarrow> False
      | Some label \<Rightarrow> known_label label \<noteq> None)"
| "has_known_label v = False"

text \<open>The top-level fields with their defaults.\<close>

definition summary_or_default :: "(pystr \<times> pyval) list \<Rightarrow> pyval" where
  "summary_or_default kv =
     (case map_of kv (ascii ''summary_critique'') of
        Some s \<Rightarrow> s
      | None \<Rightarrow> PStr [0x6279, 0x5224, 0x89E3, 0x6790, 0x5931, 0x8D25])"

definition suggestions_or_default :: "(pystr \<times> pyval) list \<Rightarrow> pyval" where
  "suggestions_or_default kv =
     (case map_of kv (ascii ''improvement_suggestions'') of
        Some s \<Rightarrow> s
      | None \<Rightarrow> PList [])"

section \<open>Example values\<close>

definition ex_score :: "CriticDimension \<Rightarrow> real \<Rightarrow> CriticScore" where
  "ex_score d x = \<lparr>dimension = d, score = x, reasoning = PStr [], suggestions = PList []\<rparr>"

definition ex_critique :: "CriticScore list \<Rightarrow> CriticOutput" where
  "ex_critique scores =
     \<lparr>target_output_id = ascii ''agent_a_1'', critic_agent_id = ascii ''agent_b'',
      overall_score = 7, satisfaction_score = 7, dimension_scores = scores,
      summary_critique = PStr (ascii ''fine''), improvement_suggestions = PList [],
      critique_time = 1, iteration = 1, metadata = []\<rparr>"

text \<open>
  Texts an evaluator may answer with, and what \<^verbatim>\<open>json.loads\<close> makes of each: a text
  that is no JSON; an object with three entries, the second with a label that is no
  dimension and the third with its score as a string; an object whose overall score is
  \<^verbatim>\<open>null\<close>; one whose overall score is a word; one whose summary is a number; and an
  object with one entry whose summary holds a fenced block, so that the regular expression
  finds the block \<^verbatim>\<open>{}\<close> inside the summary.
\<close>

definition ex_text_garbage :: pystr where
  "ex_text_garbage = ascii ''not json''"

definition ex_text_scores :: pystr where
  \<open>ex_text_scores =
     ascii ''{"dimension_scores": [{"dimension": "'' @ dimension_value INNOVATION
     @ ascii ''", "score": 8}, {"dimension": "speed", "score": 3}, {"dimension": "''
     @ dimension_value LOGIC @ ascii ''", "score": "8.5", "reasoning": "clear"}]}''\<close>

definition ex_data_scores :: pyval where
  "ex_data_scores =
     PDict [(ascii ''dimension_scores'',
             PList [PDict [(ascii ''dimension'', PStr (dimension_value INNOVATION)),
                           (ascii ''score'', PInt 8)],
                    PDict [(ascii ''dimension'', PStr (ascii ''speed'')),
                           (ascii ''score'', PInt 3)],
                    PDict [(ascii ''dimension'', PStr (dimension_value LOGIC)),
                           (ascii ''score'', PStr (ascii ''8.5'')),
                           (ascii ''reasoning'', PStr (ascii ''clear''))]])]"

definition ex_text_null_overall :: pystr where
  \<open>ex_text_null_overall =
     ascii ''{"dimension_scores": [{"dimension": "'' @ dimension_value INNOVATION
     @ ascii ''", "score": 8}], "overall_score": null}''\<close>

definition ex_data_null_overall :: pyval where
  "ex_data_null_overall =
     PDict [(ascii ''dimension_scores'',
             PList [PDict [(ascii ''dimension'', PStr (dimension_value INNOVATION)),
                           (ascii ''score'', PInt 8)]]),
            (ascii ''overall_score'', PNone)]"

definition ex_text_word_overall :: pystr where
  \<open>ex_text_word_overall =
     ascii ''{"dimension_scores": [{"dimension": "'' @ dimension_value LOGIC
     @ ascii ''", "score": 9}], "overall_score": "high"}''\<close>

definition ex_data_word_overall :: pyval where
  "ex_data_word_overall =
     PDict [(ascii ''dimension_scores'',
             PList [PDict [(ascii ''dimension'', PStr (dimension_value LOGIC)),
                           (ascii ''score'', PInt 9)]]),
            (ascii ''overall_score'', PStr (ascii ''high''))]"

definition ex_text_summary_number :: pystr where
  \<open>ex_text_summary_number = ascii ''{"summary_critique": 5}''\<close>

definition ex_data_summary_number :: pyval where
  "ex_data_summary_number = PDict [(ascii ''summary_critique'', PInt 5)]"

definition ex_text_fenced_summary :: pystr where
  \<open>ex_text_fenced_summary =
     ascii ''{"dimension_scores": [{"dimension": "'' @ dimension_value INNOVATION
     @ ascii ''", "score": 8}], "summary_critique": "```json {} ```"}''\<close>

definition ex_data_fenced_summary :: pyval where
  "ex_data_fenced_summary =
     PDict [(ascii ''dimension_scores'',
             PList [PDict [(ascii ''dimension'', PStr (dimension_value INNOVATION)),
                           (ascii ''score'', PInt 8)]]),
            (ascii ''summary_critique'', PStr (ascii ''```json {} ```''))]"

text \<open>
  The library as far as the examples call it: the regular expression finds a fenced block
  in the last example text only, \<^verbatim>\<open>json.loads\<close> reads the objects above and the empty
  object and raises on any other text, \<^verbatim>\<open>float\<close> reads the one numeral the examples hold
  and raises on any other string, a float is formatted only at \<open>0\<close> and at \<open>7\<close>, and the
  \<open>k\<close>-th reading of the clock is \<open>k\<close>.
\<close>

definition ex_lib :: pylib where
  "ex_lib =
     \<lparr>re_search_json_block =
        (\<lambda>s. if s = ex_text_fenced_summary then Some (ascii ''{}'') else None),
      json_loads =
        (\<lambda>s. case map_of [(ex_text_scores, ex_data_scores),
                            (ex_text_null_overall, ex_data_null_overall),
                            (ex_text_word_overall, ex_data_word_overall),
                            (ex_text_summary_number, ex_data_summary_number),
                            (ex_text_fenced_summary, ex_data_fenced_summary),
                            (ascii ''{}'', PDict [])] s of
                Some v \<Rightarrow> Inr v
              | None \<Rightarrow> Inl (Exc JSONDecodeError (ascii ''Expecting value''))),
      float_of_str = (\<lambda>s. if s = ascii ''8.5'' then Some (17 / 2) else None),
      format_float =
        (\<lambda>n x. (if x = 7 then ascii ''7.'' else ascii ''0.'') @ replicate n 48),
      str_of_value = (\<lambda>v. ascii ''None''),
      time_time = (\<lambda>k. real k)\<rparr>"

text \<open>An output of the agent \<^verbatim>\<open>agent_a\<close>, three evaluators (the first is
  \<^verbatim>\<open>agent_a\<close> itself) and a task.\<close>

definition ex_output :: ActorOutput where
  "ex_output =
     \<lparr>ao_agent_id = ascii ''agent_a'', ao_content = ascii ''A first draft.'',
      ao_iteration = 1, ao_generation_time = 0,
      ao_metadata = [(ascii ''agent_name'', PStr (ascii ''Alice''))]\<rparr>"

definition ex_critic_a :: Agent where
  "ex_critic_a =
     \<lparr>agent_id = ascii ''agent_a'', name = ascii ''Alice'', role = ascii ''writer'',
      system_prompt = ascii ''You write.''\<rparr>"

definition ex_critic_b :: Agent where
  "ex_critic_b =
     \<lparr>agent_id = ascii ''agent_b'', name = ascii ''Bob'', role = ascii ''reviewer'',
      system_prompt = ascii ''You review.''\<rparr>"

definition ex_critic_c :: Agent where
  "ex_critic_c =
     \<lparr>agent_id = ascii ''agent_c'', name = ascii ''Carol'', role = ascii ''editor'',
      system_prompt = ascii ''You edit.''\<rparr>"

definition ex_task :: Task where
  "ex_task =
     \<lparr>task_id = ascii ''t1'', description = ascii ''Write a plan.'',
      domain = ascii ''planning'', requirements = None, constraints = None\<rparr>"

text \<open>A criticizer as the constructor leaves it, with the collaborator given.\<close>

definition ex_criticizer :: "conversation option \<Rightarrow> GameCriticizer" where
  "ex_criticizer conversation =
     \<lparr>naga_conversation = conversation, critique_history = [], current_iteration = 0,
      clock_reads = 0\<rparr>"

text \<open>
  Collaborators, each waiting for the network before it completes: one that always raises,
  one that is cancelled while it waits, and one for each answer text. The last one answers
  at once, as a stub does.
\<close>

definition ex_conversation_raising :: conversation where
  "ex_conversation_raising prompt =
     (True, Inl (Exception_of (Exc OtherException (ascii ''connection refused''))))"

definition ex_conversation_cancelled :: conversation where
  "ex_conversation_cancelled prompt = (True, Inl (CancelledError []))"

definition ex_conversation_garbage :: conversation where
  "ex_conversation_garbage prompt = (True, Inr (PStr ex_text_garbage))"

definition ex_conversation_summary_number :: conversation where
  "ex_conversation_summary_number prompt = (True, Inr (PStr ex_text_summary_number))"

definition ex_conversation_stub :: conversation where
  "ex_conversation_stub prompt = (False, Inr (PStr ex_text_garbage))"


section \<open>The outcomes of a call\<close>

text \<open>The degraded result of the handler for the exception \<open>e\<close>: the fields that do not
  depend on the call's arguments or on the clock.\<close>

definition is_degraded_result :: "error \<Rightarrow> CriticOutput \<Rightarrow> bool" where
  "is_degraded_result e c =
     (overall_score c = 5
      \<and> satisfaction_score c = 5
      \<and> dimension_scores c = []
      \<and> summary_critique c = PStr (([0x6279, 0x5224, 0x8FC7, 0x7A0B, 0x51FA, 0x9519]
          @ ascii '':'') @ exc_str e)
      \<and> improvement_suggestions c = PList [PStr [0x5EFA, 0x8BAE, 0x91CD, 0x65B0, 0x8FDB, 0x884C, 0x6279, 0x5224, 0x5206, 0x6790]]
      \<and> metadata c = [(ascii ''error'', PBool True),
                       (ascii ''error_message'', PStr (exc_str e))])"

text \<open>The result made of the evaluator's text: the text normalized, the satisfaction
  computed from the previous critiques, and no error flag.\<close>

definition is_normalized_result ::
    "pylib \<Rightarrow> CriticOutput list option \<Rightarrow> pystr \<Rightarrow> CriticOutput \<Rightarrow> bool" where
  "is_normalized_result lib previous_critiques critique_result c =
     ((dimension_scores c, overall_score c, summary_critique c, improvement_suggestions c)
        = parse_critique_result lib critique_result
      \<and> satisfaction_score c
        = calculate_satisfaction_score previous_critiques (dimension_scores c)
      \<and> map_of (metadata c) (ascii ''error'') = None)"



section \<open>Sequences of calls\<close>

text \<open>Calls of \<^verbatim>\<open>critique_output\<close> made one after the other, each with its arguments;
  the results, or what the calls raised, in the order of the calls.\<close>

fun critique_sequence ::
    "pylib \<Rightarrow> GameCriticizer
     \<Rightarrow> (ActorOutput \<times> Agent \<times> Task \<times> CriticOutput list option) list
     \<Rightarrow> GameCriticizer \<times> (base_exception + CriticOutput) list" where
  "critique_sequence lib self [] = (self, [])"
| "critique_sequence lib self ((actor_output, critic_agent, task, previous_critiques) # calls) =
     (case critique_output lib self actor_output critic_agent task previous_critiques of
        (self1, result) \<Rightarrow>
          (case critique_sequence lib self1 calls of
             (self2, results) \<Rightarrow> (self2, result # results)))"

text \<open>The critiques among the results of a batch or of a sequence.\<close>

fun critiques_of :: "(base_exception + CriticOutput) list \<Rightarrow> CriticOutput list" where
  "critiques_of [] = []"
| "critiques_of (Inr critique # results) = critique # critiques_of results"
| "critiques_of (Inl raised # results) = critiques_of results"

text \<open>The iteration a result records, if the result is a critique.\<close>

fun recorded_iteration :: "base_exception + CriticOutput \<Rightarrow> int option" where
  "recorded_iteration (Inr critique) = Some (iteration critique)"
| "recorded_iteration (Inl raised) = None"

text \<open>
  What ties a task to its pair in the proofs about the batch runner. A result of the pair
  is a critique of that content by that evaluator, made without previous critiques and
  not flagged, or a \<^verbatim>\<open>CancelledError\<close>; a task of the pair has ended with such a result
  or is suspended in the call for that pair.
\<close>

fun result_of_pair :: "(ActorOutput \<times> Agent) \<Rightarrow> base_exception + CriticOutput \<Rightarrow> bool" where
  "result_of_pair p (Inl (Exception_of e)) = False"
| "result_of_pair p (Inl (CancelledError m)) = True"
| "result_of_pair p (Inr critique) =
     (target_output_id critique = target_id (fst p)
      \<and> critic_agent_id critique = agent_id (snd p)
      \<and> satisfaction_score critique = 7
      \<and> metadata_error critique = PBool False)"

fun task_of_pair :: "(ActorOutput \<times> Agent) \<Rightarrow> coroutine \<Rightarrow> bool" where
  "task_of_pair p (Ended result) = result_of_pair p result"
| "task_of_pair p (Suspended start_time actor_output critic_agent task previous_critiques
      response) =
     (actor_output = fst p \<and> critic_agent = snd p \<and> previous_critiques = None)"

fun is_suspended :: "coroutine \<Rightarrow> bool" where
  "is_suspended (Ended result) = False"
| "is_suspended (Suspended start_time actor_output critic_agent task previous_critiques
      response) = True"

text \<open>A task that no \<^verbatim>\<open>CancelledError\<close> ends.\<close>

fun is_uncancelled :: "coroutine \<Rightarrow> bool" where
  "is_uncancelled (Ended result) = (\<not> isl result)"
| "is_uncancelled (Suspended start_time actor_output critic_agent task previous_critiques
      response) = (case response of Inl (CancelledError m) \<Rightarrow> False | _ \<Rightarrow> True)"

text \<open>Collaborators that always wait before they complete, collaborators that never do
  (among them the absent one, for which the simulated evaluator answers), and collaborators
  that are never cancelled.\<close>

definition always_suspends :: "GameCriticizer \<Rightarrow> bool" where
  "always_suspends self =
     (case naga_conversation self of
        None \<Rightarrow> False
      | Some conversation \<Rightarrow> (\<forall>prompt. fst (conversation prompt)))"

definition never_cancelled :: "GameCriticizer \<Rightarrow> bool" where
  "never_cancelled self =
     (case naga_conversation self of
        None \<Rightarrow> True
      | Some conversation \<Rightarrow> (\<forall>prompt m. snd (conversation prompt) \<noteq> Inl (CancelledError m)))"

definition never_suspends :: "GameCriticizer \<Rightarrow> bool" where
  "never_suspends self =
     (case naga_conversation self of
        None \<Rightarrow> True
      | Some conversation \<Rightarrow> (\<forall>prompt. \<not> fst (conversation prompt)))"

section \<open>The satisfaction estimator meets its specification\<close>

lemma find_last_score_find:
  "find_last_score prior d = map_option score (find (\<lambda>p. dimension p = d) prior)"
  by (induction prior) auto

lemma collect_improvements_deltas:
  "collect_improvements prior current acc = acc @ score_deltas prior current"
  by (induction current arbitrary: acc)
     (auto simp: score_deltas_def find_last_score_find split: option.splits)

lemma max_min_clamp: "max 0 (min 10 x) = clamp x 0 10"
  by (simp add: clamp_def max_def min_def)

text \<open>
  Claim C2. The satisfaction estimator returns 7 when there is no previous evaluation or
  the list of previous evaluations or of current scores is empty. Otherwise it takes the
  last previous evaluation and collects, for every current score whose dimension that
  evaluation scores too, the delta current minus previous; it returns 7 when there is no
  delta and else 7 plus the mean of the deltas, clamped to the range from 0 to 10.
\<close>

theorem satisfaction_score_spec:
  "calculate_satisfaction_score previous_critiques current_scores =
     (case previous_critiques of
        None \<Rightarrow> 7
      | Some prevs \<Rightarrow>
          if prevs = [] \<or> current_scores = [] then 7
          else
            (let deltas = score_deltas (dimension_scores (last prevs)) current_scores
             in if deltas = [] then 7 else clamp (7 + mean deltas) 0 10))"
  by (simp add: calculate_satisfaction_score_def collect_improvements_deltas max_min_clamp
        mean_def Let_def split: option.splits)

text \<open>The examples of the claim and of the specification: a previous 8 and a current 2
  on the one dimension both have give 1; a previous 6 and a current 9 give 10; no previous
  evaluation gives 7, and so do scores on different dimensions.\<close>

theorem satisfaction_score_example:
  "calculate_satisfaction_score (Some [ex_critique [ex_score LOGIC 8]]) [ex_score LOGIC 2] = 1
   \<and> calculate_satisfaction_score (Some [ex_critique [ex_score LOGIC 6]]) [ex_score LOGIC 9] = 10
   \<and> calculate_satisfaction_score None [ex_score LOGIC 2] = 7
   \<and> calculate_satisfaction_score (Some [ex_critique [ex_score QUALITY 8]]) [ex_score LOGIC 2] = 7"
  by (simp add: satisfaction_score_spec score_deltas_def mean_def clamp_def ex_critique_def
        ex_score_def)

section \<open>The score normalizer\<close>

lemma small_int_floats: "i \<le> 1000 \<Longrightarrow> (i < float_int_bound) = True"
  by (simp add: float_int_bound_def)

lemma CriticDimension_of_known:
  "CriticDimension_of v =
     (case known_label v of
        Some d \<Rightarrow> Inr d
      | None \<Rightarrow> Inl (Exc ValueError (ascii ''not a valid CriticDimension'')))"
  by (cases v) (simp_all add: CriticDimension_of_def)

lemma parse_dimension_score_labelled:
  assumes "labelled_entry lib sd"
  shows "parse_dimension_score lib sd =
     (case entry_score lib sd of
        Some s \<Rightarrow> Inr s
      | None \<Rightarrow> Inl (Exc ValueError (ascii ''not a valid CriticDimension'')))"
  using assms
  by (cases sd)
     (auto simp: parse_dimension_score_def normalized_entry_def py_getitem_def py_get_def
        CriticDimension_of_known split: option.splits sum.splits)

lemma parse_dimension_scores_labelled:
  "list_all (labelled_entry lib) items \<Longrightarrow>
   parse_dimension_scores lib items acc = Inr (acc @ List.map_filter (entry_score lib) items)"
proof (induction items arbitrary: acc)
  case Nil
  then show ?case by (simp add: List.map_filter_simps)
next
  case (Cons sd items)
  then have l: "labelled_entry lib sd" and ls: "list_all (labelled_entry lib) items"
    by simp_all
  show ?case
    by (cases "entry_score lib sd")
       (simp_all add: parse_dimension_score_labelled [OF l] Cons.IH [OF ls]
          List.map_filter_simps)
qed

lemma entry_score_known:
  "labelled_entry lib sd \<Longrightarrow> (entry_score lib sd \<noteq> None) = has_known_label sd"
  by (cases sd) (auto simp: normalized_entry_def split: option.splits sum.splits)

lemma length_map_filter_labelled:
  "list_all (labelled_entry lib) items \<Longrightarrow>
   length (List.map_filter (entry_score lib) items) = length (filter has_known_label items)"
proof (induction items)
  case Nil
  then show ?case by (simp add: List.map_filter_simps)
next
  case (Cons sd items)
  then have l: "labelled_entry lib sd" by simp
  from Cons show ?case
    using entry_score_known [OF l]
    by (cases "entry_score lib sd") (auto simp: List.map_filter_simps)
qed

lemma parse_dimension_field_labelled:
  assumes "map_of kv (ascii ''dimension_scores'') = Some (PList entries)"
    and "list_all (labelled_entry lib) entries"
  shows "parse_dimension_field lib (PDict kv) = Inr (List.map_filter (entry_score lib) entries)"
  using assms
  by (simp add: parse_dimension_field_def py_contains_def py_getitem_def py_iter_def
        parse_dimension_scores_labelled)

lemma parse_critique_data_dict:
  "parse_critique_data lib (PDict kv) =
     (case parse_dimension_field lib (PDict kv) of
        Inl e \<Rightarrow> Inl e
      | Inr scores \<Rightarrow>
          (case map_of kv (ascii ''overall_score'') of
             None \<Rightarrow> Inr (scores, 7, summary_or_default kv, suggestions_or_default kv)
           | Some v \<Rightarrow>
               (case py_float lib v of
                  Inl e \<Rightarrow> Inl e
                | Inr x \<Rightarrow> Inr (scores, x, summary_or_default kv, suggestions_or_default kv))))"
  by (simp add: parse_critique_data_def py_get_def py_float_def summary_or_default_def
        suggestions_or_default_def split: sum.splits option.splits)

text \<open>An answer without a fenced block that starts with a brace, once stripped, is parsed
  as it is.\<close>

lemma extract_json_plain_object:
  "re_search_json_block lib critique_result = None \<Longrightarrow>
   py_startswith (py_strip critique_result) (ascii ''{'') \<Longrightarrow>
   extract_json lib critique_result = py_strip critique_result"
  by (simp add: extract_json_def)

text \<open>An integer beyond the range of a float is not coerced: \<^verbatim>\<open>float\<close> raises an
  \<^verbatim>\<open>OverflowError\<close>, which the handler of an entry does not catch.\<close>

lemma py_float_beyond_range:
  "py_float lib (PInt (10 ^ 309))
     = Inl (Exc OverflowError (ascii ''int too large to convert to float''))"
  by (simp add: py_float_def float_int_bound_def)

lemma parse_dimension_score_beyond_range:
  "parse_dimension_scores lib
     [PDict [(ascii ''dimension'', PStr (dimension_value LOGIC)),
             (ascii ''score'', PInt (10 ^ 309))]] []
   = Inl (Exc OverflowError (ascii ''int too large to convert to float''))"
  by (simp add: parse_dimension_score_def py_getitem_def CriticDimension_of_def
        CriticDimension_members_def py_float_def float_int_bound_def ascii_def)

subsection \<open>The example texts\<close>

lemma ex_lib_simps:
  "float_of_str ex_lib s = (if s = ascii ''8.5'' then Some (17 / 2) else None)"
  "time_time ex_lib k = real k"
  by (simp_all add: ex_lib_def)

lemma ex_no_fence:
  "re_search_json_block ex_lib ex_text_garbage = None"
  "re_search_json_block ex_lib ex_text_scores = None"
  "re_search_json_block ex_lib ex_text_null_overall = None"
  "re_search_json_block ex_lib ex_text_word_overall = None"
  "re_search_json_block ex_lib ex_text_summary_number = None"
  by (simp_all add: ex_lib_def ex_text_garbage_def ex_text_scores_def ex_text_null_overall_def
        ex_text_word_overall_def ex_text_summary_number_def ex_text_fenced_summary_def
        ascii_def)

lemma ex_fence:
  "re_search_json_block ex_lib ex_text_fenced_summary = Some (ascii ''{}'')"
  by (simp add: ex_lib_def)

lemma ex_extract_garbage: "extract_json ex_lib ex_text_garbage = ex_text_garbage"
  by (simp add: extract_json_def ex_no_fence)
     (simp add: ex_text_garbage_def ascii_def py_strip_def py_isspace_def py_startswith_def
        py_rfind_def)

lemma ex_loads_garbage:
  "json_loads ex_lib ex_text_garbage = Inl (Exc JSONDecodeError (ascii ''Expecting value''))"
  by (simp add: ex_lib_def ex_text_garbage_def ex_text_scores_def ex_text_null_overall_def
        ex_text_word_overall_def ex_text_summary_number_def ex_text_fenced_summary_def
        ascii_def)

lemma ex_extract_scores: "extract_json ex_lib ex_text_scores = ex_text_scores"
  by (simp add: extract_json_def ex_no_fence)
     (simp add: ex_text_scores_def ascii_def py_strip_def py_isspace_def py_startswith_def)

lemma ex_loads_scores: "json_loads ex_lib ex_text_scores = Inr ex_data_scores"
  by (simp add: ex_lib_def)

lemma ex_extract_null_overall: "extract_json ex_lib ex_text_null_overall = ex_text_null_overall"
  by (simp add: extract_json_def ex_no_fence)
     (simp add: ex_text_null_overall_def ascii_def py_strip_def py_isspace_def
        py_startswith_def)

lemma ex_loads_null_overall: "json_loads ex_lib ex_text_null_overall = Inr ex_data_null_overall"
  by (simp add: ex_lib_def ex_text_scores_def ex_text_null_overall_def ascii_def)

lemma ex_extract_word_overall: "extract_json ex_lib ex_text_word_overall = ex_text_word_overall"
  by (simp add: extract_json_def ex_no_fence)
     (simp add: ex_text_word_overall_def ascii_def py_strip_def py_isspace_def
        py_startswith_def)

lemma ex_loads_word_overall: "json_loads ex_lib ex_text_word_overall = Inr ex_data_word_overall"
  by (simp add: ex_lib_def ex_text_scores_def ex_text_null_overall_def
        ex_text_word_overall_def ascii_def)

lemma ex_extract_summary_number:
  "extract_json ex_lib ex_text_summary_number = ex_text_summary_number"
  by (simp add: extract_json_def ex_no_fence)
     (simp add: ex_text_summary_number_def ascii_def py_strip_def py_isspace_def
        py_startswith_def)

lemma ex_loads_summary_number:
  "json_loads ex_lib ex_text_summary_number = Inr ex_data_summary_number"
  by (simp add: ex_lib_def ex_text_scores_def ex_text_null_overall_def
        ex_text_word_overall_def ex_text_summary_number_def ascii_def)

lemma ex_extract_fenced_summary: "extract_json ex_lib ex_text_fenced_summary = ascii ''{}''"
  by (simp add: extract_json_def ex_fence)

lemma ex_loads_fenced_summary:
  "json_loads ex_lib ex_text_fenced_summary = Inr ex_data_fenced_summary"
  by (simp add: ex_lib_def ex_text_scores_def ex_text_null_overall_def
        ex_text_word_overall_def ex_text_summary_number_def ex_text_fenced_summary_def
        ascii_def)

lemma ex_loads_empty_object: "json_loads ex_lib (ascii ''{}'') = Inr (PDict [])"
  by (simp add: ex_lib_def ex_text_scores_def ex_text_null_overall_def
        ex_text_word_overall_def ex_text_summary_number_def ex_text_fenced_summary_def
        ascii_def)

lemma default_result_shape:
  "map dimension (fst get_default_critique_result)
     = [INNOVATION, LOGIC, COMPLETENESS, FEASIBILITY, QUALITY, RELEVANCE]"
  "map score (fst get_default_critique_result) = [7, 7, 7, 7, 7, 7]"
  "fst (snd get_default_critique_result) = 7"
  by (simp_all add: get_default_critique_result_def CriticDimension_members_def)

lemma ex_entries_scores:
  "List.map_filter (entry_score ex_lib)
     [PDict [(ascii ''dimension'', PStr (dimension_value INNOVATION)),
             (ascii ''score'', PInt 8)],
      PDict [(ascii ''dimension'', PStr (ascii ''speed'')), (ascii ''score'', PInt 3)],
      PDict [(ascii ''dimension'', PStr (dimension_value LOGIC)),
             (ascii ''score'', PStr (ascii ''8.5'')),
             (ascii ''reasoning'', PStr (ascii ''clear''))]]
   = [\<lparr>dimension = INNOVATION, score = 8, reasoning = PStr [], suggestions = PList []\<rparr>,
      \<lparr>dimension = LOGIC, score = 17 / 2, reasoning = PStr (ascii ''clear''),
       suggestions = PList []\<rparr>]"
  by (simp add: List.map_filter_simps normalized_entry_def CriticDimension_members_def
        py_float_def small_int_floats ex_lib_simps ascii_def)

lemma ex_labelled_scores:
  "list_all (labelled_entry ex_lib)
     [PDict [(ascii ''dimension'', PStr (dimension_value INNOVATION)),
             (ascii ''score'', PInt 8)],
      PDict [(ascii ''dimension'', PStr (ascii ''speed'')), (ascii ''score'', PInt 3)],
      PDict [(ascii ''dimension'', PStr (dimension_value LOGIC)),
             (ascii ''score'', PStr (ascii ''8.5'')),
             (ascii ''reasoning'', PStr (ascii ''clear''))]]"
  by (simp add: CriticDimension_members_def py_float_def small_int_floats ex_lib_simps
        ascii_def)

subsection \<open>Malformed input\<close>

text \<open>
  Claim C3. When the text the extraction yields cannot be parsed (\<^verbatim>\<open>json.loads\<close>
  raises), the normalizer returns the default result: one score for each of the six
  dimensions, in the order of the enumeration, each 7 and each with its generic reasoning
  and suggestion, the overall score 7 and the fixed narrative that the analysis went wrong
  and default scores are used. The exception ends in the handler, which returns a
  constant.
\<close>

theorem parse_failure_gives_default:
  assumes "json_loads lib (extract_json lib critique_result) = Inl e"
  shows "parse_critique_result lib critique_result = get_default_critique_result
    \<and> (case parse_critique_result lib critique_result of
          (scores, overall, summary, suggestions_list) \<Rightarrow>
            map dimension scores
              = [INNOVATION, LOGIC, COMPLETENESS, FEASIBILITY, QUALITY, RELEVANCE]
            \<and> map score scores = [7, 7, 7, 7, 7, 7]
            \<and> map reasoning scores
              = map (\<lambda>d. PStr ([0x9ED8, 0x8BA4] @ dimension_value d @ [0x8BC4, 0x5206]))
                  [INNOVATION, LOGIC, COMPLETENESS, FEASIBILITY, QUALITY, RELEVANCE]
            \<and> map suggestions scores
              = map (\<lambda>d. PList [PStr ([0x6539, 0x8FDB] @ dimension_value d @ [0x76F8, 0x5173, 0x65B9, 0x9762])])
                  [INNOVATION, LOGIC, COMPLETENESS, FEASIBILITY, QUALITY, RELEVANCE]
            \<and> overall = 7
            \<and> summary = PStr ([0x6279, 0x5224, 0x5206, 0x6790, 0x8FC7, 0x7A0B, 0x51FA, 0x73B0, 0x95EE, 0x9898]
                @ ascii '','' @ [0x4F7F, 0x7528, 0x9ED8, 0x8BA4, 0x8BC4, 0x5206]))"
proof -
  have "parse_critique_result lib critique_result = get_default_critique_result"
    using assms by (simp add: parse_critique_result_def parse_critique_body_def)
  then show ?thesis
    by (simp add: get_default_critique_result_def CriticDimension_members_def)
qed

text \<open>The text \<^verbatim>\<open>not json\<close>, which has no brace and which \<^verbatim>\<open>json.loads\<close> rejects.\<close>

theorem parse_failure_example:
  "json_loads ex_lib (extract_json ex_lib ex_text_garbage)
     = Inl (Exc JSONDecodeError (ascii ''Expecting value''))
   \<and> parse_critique_result ex_lib ex_text_garbage = get_default_critique_result
   \<and> map score (fst (parse_critique_result ex_lib ex_text_garbage)) = [7, 7, 7, 7, 7, 7]
   \<and> fst (snd (parse_critique_result ex_lib ex_text_garbage)) = 7"
proof -
  have h: "json_loads ex_lib (extract_json ex_lib ex_text_garbage)
             = Inl (Exc JSONDecodeError (ascii ''Expecting value''))"
    by (simp add: ex_extract_garbage ex_loads_garbage)
  from parse_failure_gives_default [OF h] h show ?thesis
    by (simp add: default_result_shape)
qed

subsection \<open>Well-formed input\<close>

text \<open>
  Claim C6 fails as it is stated, in two ways. An object with one valid entry and the
  overall score \<^verbatim>\<open>null\<close> is answered with the six default scores, since \<^verbatim>\<open>float(None)\<close>
  raises a \<^verbatim>\<open>TypeError\<close> that the outer handler turns into the default result. And an
  object with one valid entry whose summary holds a fenced block is answered with no score
  at all: the regular expression takes the block \<^verbatim>\<open>{}\<close> out of the summary, and the object
  that is parsed is the empty one.
\<close>

theorem normalizer_null_overall:
  "json_loads ex_lib (extract_json ex_lib ex_text_null_overall) = Inr ex_data_null_overall
   \<and> list_all (labelled_entry ex_lib)
        [PDict [(ascii ''dimension'', PStr (dimension_value INNOVATION)),
                (ascii ''score'', PInt 8)]]
   \<and> map score (fst (parse_critique_result ex_lib ex_text_null_overall)) = [7, 7, 7, 7, 7, 7]
   \<and> json_loads ex_lib ex_text_fenced_summary = Inr ex_data_fenced_summary
   \<and> parse_dimension_field ex_lib ex_data_fenced_summary = Inr [ex_score INNOVATION 8]
   \<and> extract_json ex_lib ex_text_fenced_summary = ascii ''{}''
   \<and> parse_critique_result ex_lib ex_text_fenced_summary
     = ([], 7, PStr [0x6279, 0x5224, 0x89E3, 0x6790, 0x5931, 0x8D25], PList [])"
proof -
  have "parse_critique_data ex_lib ex_data_null_overall
          = Inl (Exc TypeError (ascii ''float() argument must be a string or a real number''))"
    by (simp add: ex_data_null_overall_def parse_critique_data_dict parse_dimension_field_def
          py_contains_def py_getitem_def py_iter_def parse_dimension_score_def
          CriticDimension_of_def CriticDimension_members_def py_float_def small_int_floats
          py_get_def ascii_def)
  then have n: "parse_critique_result ex_lib ex_text_null_overall = get_default_critique_result"
    by (simp add: parse_critique_result_def parse_critique_body_def ex_extract_null_overall
          ex_loads_null_overall)
  have l: "list_all (labelled_entry ex_lib)
        [PDict [(ascii ''dimension'', PStr (dimension_value INNOVATION)),
                (ascii ''score'', PInt 8)]]"
    by (simp add: CriticDimension_members_def py_float_def small_int_floats ascii_def)
  have d: "parse_dimension_field ex_lib ex_data_fenced_summary = Inr [ex_score INNOVATION 8]"
    by (simp add: ex_data_fenced_summary_def parse_dimension_field_def
          py_contains_def py_getitem_def py_iter_def parse_dimension_score_def
          CriticDimension_of_def CriticDimension_members_def py_float_def small_int_floats
          py_get_def ascii_def ex_score_def)
  have "parse_critique_data ex_lib (PDict [])
          = Inr ([], 7, PStr [0x6279, 0x5224, 0x89E3, 0x6790, 0x5931, 0x8D25], PList [])"
    by (simp add: parse_critique_data_dict parse_dimension_field_def py_contains_def
          summary_or_default_def suggestions_or_default_def)
  then have f: "parse_critique_result ex_lib ex_text_fenced_summary
                  = ([], 7, PStr [0x6279, 0x5224, 0x89E3, 0x6790, 0x5931, 0x8D25], PList [])"
    by (simp add: parse_critique_result_def parse_critique_body_def ex_extract_fenced_summary
          ex_loads_empty_object)
  show ?thesis
    unfolding n f
    using l d
    by (simp add: ex_extract_null_overall ex_loads_null_overall ex_loads_fenced_summary
          ex_extract_fenced_summary default_result_shape)
qed

text \<open>
  Claim C6, amended. The normalizer parses the text that the extraction yields: the first
  fenced block that the regular expression finds anywhere in the answer, else the answer
  stripped and, if it does not start with a brace, cut from its first to its last brace.
  When that text is a JSON object whose \<^verbatim>\<open>dimension_scores\<close> is a list of objects, each
  with a label and, under a known label, a score that can be coerced to a float (a number
  within the range of a float, or a string that \<^verbatim>\<open>float\<close> reads), and whose
  \<^verbatim>\<open>overall_score\<close> is absent or can be coerced to a float, the normalizer returns the
  entries with a known label, in order, each with its score coerced, its reasoning (the
  empty string if absent) and its suggestions (the empty list if absent); entries with any
  other label are dropped.
\<close>

theorem normalizer_labelled_entries:
  assumes "json_loads lib (extract_json lib critique_result) = Inr (PDict kv)"
    and "map_of kv (ascii ''dimension_scores'') = Some (PList entries)"
    and "list_all (labelled_entry lib) entries"
    and "case map_of kv (ascii ''overall_score'') of
           None \<Rightarrow> True | Some v \<Rightarrow> \<not> isl (py_float lib v)"
  shows "fst (parse_critique_result lib critique_result)
           = List.map_filter (entry_score lib) entries
         \<and> length (fst (parse_critique_result lib critique_result))
           = length (filter has_known_label entries)"
proof -
  have "fst (parse_critique_result lib critique_result)
          = List.map_filter (entry_score lib) entries"
    using assms(1,4)
    by (auto simp: parse_critique_result_def parse_critique_body_def parse_critique_data_dict
          parse_dimension_field_labelled [OF assms(2,3)] split: option.splits sum.splits)
  then show ?thesis
    by (simp add: length_map_filter_labelled [OF assms(3)])
qed

text \<open>Three entries, the second with the label \<^verbatim>\<open>speed\<close>: two scores come back, 8 and
  8.5, the second with its reasoning.\<close>

theorem normalizer_labelled_example:
  "json_loads ex_lib (extract_json ex_lib ex_text_scores) = Inr ex_data_scores
   \<and> fst (parse_critique_result ex_lib ex_text_scores)
     = [\<lparr>dimension = INNOVATION, score = 8, reasoning = PStr [], suggestions = PList []\<rparr>,
        \<lparr>dimension = LOGIC, score = 17 / 2, reasoning = PStr (ascii ''clear''),
         suggestions = PList []\<rparr>]
   \<and> length (fst (parse_critique_result ex_lib ex_text_scores)) = 2"
proof -
  let ?entries =
    "[PDict [(ascii ''dimension'', PStr (dimension_value INNOVATION)),
             (ascii ''score'', PInt 8)],
      PDict [(ascii ''dimension'', PStr (ascii ''speed'')), (ascii ''score'', PInt 3)],
      PDict [(ascii ''dimension'', PStr (dimension_value LOGIC)),
             (ascii ''score'', PStr (ascii ''8.5'')),
             (ascii ''reasoning'', PStr (ascii ''clear''))]]"
  let ?kv = "[(ascii ''dimension_scores'', PList ?entries)]"
  have h: "json_loads ex_lib (extract_json ex_lib ex_text_scores) = Inr (PDict ?kv)"
    by (simp add: ex_extract_scores ex_loads_scores ex_data_scores_def)
  have m: "map_of ?kv (ascii ''dimension_scores'') = Some (PList ?entries)"
    by simp
  have o: "case map_of ?kv (ascii ''overall_score'') of
             None \<Rightarrow> True | Some v \<Rightarrow> \<not> isl (py_float ex_lib v)"
    by (simp add: ascii_def)
  have e: "fst (parse_critique_result ex_lib ex_text_scores)
             = List.map_filter (entry_score ex_lib) ?entries"
    using normalizer_labelled_entries [OF h m ex_labelled_scores o] by blast
  show ?thesis
    unfolding e ex_entries_scores
    by (simp add: ex_extract_scores ex_loads_scores)
qed

subsection \<open>The top-level fields\<close>

text \<open>
  Claim C8 fails as it is stated where the overall score cannot be parsed: an object with
  the valid entry (logic, 9) and the overall score \<^verbatim>\<open>"high"\<close> is answered with the
  default result, in which logic is scored 7 and the parsed entry is lost.
\<close>

theorem overall_word_loses_entries:
  "json_loads ex_lib (extract_json ex_lib ex_text_word_overall) = Inr ex_data_word_overall
   \<and> parse_dimension_field ex_lib ex_data_word_overall = Inr [ex_score LOGIC 9]
   \<and> parse_critique_result ex_lib ex_text_word_overall = get_default_critique_result
   \<and> map score (fst (parse_critique_result ex_lib ex_text_word_overall))
     = [7, 7, 7, 7, 7, 7]"
proof -
  have d: "parse_dimension_field ex_lib ex_data_word_overall = Inr [ex_score LOGIC 9]"
    by (simp add: ex_data_word_overall_def parse_dimension_field_def
          py_contains_def py_getitem_def py_iter_def parse_dimension_score_def
          CriticDimension_of_def CriticDimension_members_def py_float_def small_int_floats
          py_get_def ascii_def ex_score_def)
  have "parse_critique_data ex_lib ex_data_word_overall
          = Inl (Exc ValueError (ascii ''could not convert string to float''))"
    using d
    by (simp add: ex_data_word_overall_def parse_critique_data_dict py_float_def ex_lib_simps
          ascii_def)
  then have "parse_critique_result ex_lib ex_text_word_overall = get_default_critique_result"
    by (simp add: parse_critique_result_def parse_critique_body_def ex_extract_word_overall
          ex_loads_word_overall)
  with d show ?thesis
    by (simp add: ex_extract_word_overall ex_loads_word_overall default_result_shape)
qed

text \<open>
  Claim C8, amended. For a parsed object whose dimension entries are parsed to
  \<open>scores\<close>, a missing overall score is 7, a missing summary the placeholder and missing
  improvement suggestions the empty list, each on its own and with \<open>scores\<close> kept; an
  overall score that is present and can be coerced to a float is that float; an overall
  score that is present and cannot be coerced (\<^verbatim>\<open>float\<close> raises a \<^verbatim>\<open>ValueError\<close>, a
  \<^verbatim>\<open>TypeError\<close> or, for an integer beyond the range of a float, an \<^verbatim>\<open>OverflowError\<close>)
  replaces the whole result by the default result.
\<close>

theorem overall_score_defaults:
  assumes "json_loads lib (extract_json lib critique_result) = Inr (PDict kv)"
    and "parse_dimension_field lib (PDict kv) = Inr scores"
  shows "parse_critique_result lib critique_result =
     (case map_of kv (ascii ''overall_score'') of
        None \<Rightarrow> (scores, 7, summary_or_default kv, suggestions_or_default kv)
      | Some v \<Rightarrow>
          (case py_float lib v of
             Inr x \<Rightarrow> (scores, x, summary_or_default kv, suggestions_or_default kv)
           | Inl e \<Rightarrow> get_default_critique_result))"
  using assms
  by (simp add: parse_critique_result_def parse_critique_body_def parse_critique_data_dict
        split: option.splits sum.splits)

text \<open>The object with three entries and nothing else: the two entries with a known label
  are kept, the overall score is 7, the summary is the placeholder and there are no
  suggestions.\<close>

theorem overall_score_defaults_example:
  "json_loads ex_lib (extract_json ex_lib ex_text_scores) = Inr ex_data_scores
   \<and> parse_dimension_field ex_lib ex_data_scores
     = Inr [\<lparr>dimension = INNOVATION, score = 8, reasoning = PStr [], suggestions = PList []\<rparr>,
            \<lparr>dimension = LOGIC, score = 17 / 2, reasoning = PStr (ascii ''clear''),
             suggestions = PList []\<rparr>]
   \<and> parse_critique_result ex_lib ex_text_scores
     = ([\<lparr>dimension = INNOVATION, score = 8, reasoning = PStr [], suggestions = PList []\<rparr>,
         \<lparr>dimension = LOGIC, score = 17 / 2, reasoning = PStr (ascii ''clear''),
          suggestions = PList []\<rparr>],
        7, PStr [0x6279, 0x5224, 0x89E3, 0x6790, 0x5931, 0x8D25], PList [])"
proof -
  let ?entries =
    "[PDict [(ascii ''dimension'', PStr (dimension_value INNOVATION)),
             (ascii ''score'', PInt 8)],
      PDict [(ascii ''dimension'', PStr (ascii ''speed'')), (ascii ''score'', PInt 3)],
      PDict [(ascii ''dimension'', PStr (dimension_value LOGIC)),
             (ascii ''score'', PStr (ascii ''8.5'')),
             (ascii ''reasoning'', PStr (ascii ''clear''))]]"
  let ?kv = "[(ascii ''dimension_scores'', PList ?entries)]"
  have h: "json_loads ex_lib (extract_json ex_lib ex_text_scores) = Inr (PDict ?kv)"
    by (simp add: ex_extract_scores ex_loads_scores ex_data_scores_def)
  have m: "map_of ?kv (ascii ''dimension_scores'') = Some (PList ?entries)"
    by simp
  have d: "parse_dimension_field ex_lib (PDict ?kv)
             = Inr (List.map_filter (entry_score ex_lib) ?entries)"
    by (rule parse_dimension_field_labelled [OF m ex_labelled_scores])
  have o: "map_of ?kv (ascii ''overall_score'') = None"
       "summary_or_default ?kv = PStr [0x6279, 0x5224, 0x89E3, 0x6790, 0x5931, 0x8D25]"
       "suggestions_or_default ?kv = PList []"
    by (simp_all add: summary_or_default_def suggestions_or_default_def ascii_def)
  have k: "ex_data_scores = PDict ?kv"
    by (simp add: ex_data_scores_def)
  show ?thesis
    using overall_score_defaults [OF h d] h d
    unfolding o k ex_entries_scores
    by simp
qed

section \<open>The evaluation orchestrator\<close>

lemma build_prompt_without_history:
  "\<exists>prompt. build_critique_prompt lib actor_output critic_agent task None = Inr prompt"
  by (simp add: build_critique_prompt_def Let_def)



lemma build_prompt_history_error:
  "prevs \<noteq> [] \<Longrightarrow> prompt_history lib (drop (length prevs - 2) prevs) = Inl e \<Longrightarrow>
   build_critique_prompt lib actor_output critic_agent task (Some prevs) = Inl e"
  by (simp add: build_critique_prompt_def Let_def)

lemma call_llm_counter:
  "call_llm_for_critique (self\<lparr>current_iteration := i, clock_reads := k\<rparr>) prompt critic_agent
     = call_llm_for_critique self prompt critic_agent"
  by (simp add: call_llm_for_critique_def)

lemma metadata_error_finish:
  "metadata_error (snd (critique_output_finish lib self start_time actor_output critic_agent
      task previous_critiques critique_result)) = PBool False"
  by (simp add: critique_output_finish_def metadata_error_def ascii_def Let_def
        split: prod.splits)

lemma finish_fields:
  "critique_output_finish lib self start_time actor_output critic_agent task
       previous_critiques critique_result = (self', c) \<Longrightarrow>
   target_output_id c = target_id actor_output
   \<and> critic_agent_id c = agent_id critic_agent
   \<and> (dimension_scores c, overall_score c, summary_critique c, improvement_suggestions c)
     = parse_critique_result lib critique_result
   \<and> satisfaction_score c = calculate_satisfaction_score previous_critiques (dimension_scores c)
   \<and> iteration c = current_iteration self
   \<and> critique_history self' = critique_history self @ [c]
   \<and> current_iteration self' = current_iteration self
   \<and> naga_conversation self' = naga_conversation self"
  by (auto simp: critique_output_finish_def Let_def split: prod.splits)

lemma failed_fields:
  "critique_output_failed lib self start_time actor_output critic_agent e = (self', c) \<Longrightarrow>
   target_output_id c = target_id actor_output
   \<and> critic_agent_id c = agent_id critic_agent
   \<and> overall_score c = 5 \<and> satisfaction_score c = 5 \<and> dimension_scores c = []
   \<and> summary_critique c = PStr (([0x6279, 0x5224, 0x8FC7, 0x7A0B, 0x51FA, 0x9519]
       @ ascii '':'') @ exc_str e)
   \<and> metadata c = [(ascii ''error'', PBool True), (ascii ''error_message'', PStr (exc_str e))]
   \<and> iteration c = current_iteration self
   \<and> critique_history self' = critique_history self
   \<and> current_iteration self' = current_iteration self
   \<and> naga_conversation self' = naga_conversation self"
  by (auto simp: critique_output_failed_def ascii_def)

lemma finish_no_error_key:
  "critique_output_finish lib self start_time actor_output critic_agent task
       previous_critiques critique_result = (self', c) \<Longrightarrow>
   map_of (metadata c) (ascii ''error'') = None"
  by (auto simp: critique_output_finish_def Let_def ascii_def split: prod.splits)

lemma failed_suggestion:
  "critique_output_failed lib self start_time actor_output critic_agent e = (self', c) \<Longrightarrow>
   improvement_suggestions c = PList [PStr [0x5EFA, 0x8BAE, 0x91CD, 0x65B0, 0x8FDB, 0x884C, 0x6279, 0x5224, 0x5206, 0x6790]]"
  by (auto simp: critique_output_failed_def)

lemma finish_normalized:
  assumes "critique_output_finish lib self start_time actor_output critic_agent task
       previous_critiques critique_result = (self', c)"
  shows "is_normalized_result lib previous_critiques critique_result c"
  using finish_fields [OF assms] finish_no_error_key [OF assms]
  by (simp add: is_normalized_result_def)

lemma failed_degraded:
  assumes "critique_output_failed lib self start_time actor_output critic_agent e = (self', c)"
  shows "is_degraded_result e c"
  using failed_fields [OF assms] failed_suggestion [OF assms]
  by (simp add: is_degraded_result_def)

lemma call_llm_cases:
  "call_llm_for_critique self prompt critic_agent =
     (case naga_conversation self of
        None \<Rightarrow> Inr (generate_mock_critique critic_agent)
      | Some conversation \<Rightarrow>
          (case snd (conversation prompt) of
             Inl (CancelledError m) \<Rightarrow> Inl (CancelledError m)
           | Inl (Exception_of e) \<Rightarrow> Inr (generate_mock_critique critic_agent)
           | Inr (PStr s) \<Rightarrow> Inr (py_strip s)
           | Inr v \<Rightarrow> Inr (generate_mock_critique critic_agent)))"
  by (simp add: call_llm_for_critique_def llm_response_def
        split: option.splits sum.splits base_exception.splits pyval.splits)

lemma call_llm_uncancelled:
  "never_cancelled self \<Longrightarrow> \<exists>text. call_llm_for_critique self prompt critic_agent = Inr text"
  by (auto simp: never_cancelled_def call_llm_cases
        split: option.splits sum.splits base_exception.splits pyval.splits)

lemma critique_output_unfold:
  "critique_output lib self actor_output critic_agent task previous_critiques =
     (case build_critique_prompt lib actor_output critic_agent task previous_critiques of
        Inl e \<Rightarrow>
          (case critique_output_failed lib
                  (self\<lparr>current_iteration := current_iteration self + 1,
                         clock_reads := clock_reads self + 1\<rparr>)
                  (time_time lib (clock_reads self)) actor_output critic_agent e of
             (self2, c) \<Rightarrow> (self2, Inr c))
      | Inr prompt \<Rightarrow>
          (case call_llm_for_critique self prompt critic_agent of
             Inl raised \<Rightarrow>
               (self\<lparr>current_iteration := current_iteration self + 1,
                      clock_reads := clock_reads self + 1\<rparr>, Inl raised)
           | Inr critique_result \<Rightarrow>
               (case critique_output_finish lib
                       (self\<lparr>current_iteration := current_iteration self + 1,
                              clock_reads := clock_reads self + 1\<rparr>)
                       (time_time lib (clock_reads self)) actor_output critic_agent task
                       previous_critiques critique_result of
                  (self2, c) \<Rightarrow> (self2, Inr c))))"
  by (simp add: critique_output_def critique_output_enter_def Let_def call_llm_counter
        split: sum.splits)

text \<open>The three ways a call ends: the prompt cannot be built, the evaluator's text is there,
  or the awaited call is cancelled.\<close>

lemma critique_output_prompt_error:
  assumes "build_critique_prompt lib actor_output critic_agent task previous_critiques = Inl e"
  shows "\<exists>self' c.
       critique_output lib self actor_output critic_agent task previous_critiques
         = (self', Inr c)
       \<and> is_degraded_result e c
       \<and> iteration c = current_iteration self + 1
       \<and> current_iteration self' = current_iteration self + 1
       \<and> critique_history self' = critique_history self
       \<and> naga_conversation self' = naga_conversation self"
proof -
  let ?self1 = "self\<lparr>current_iteration := current_iteration self + 1,
                      clock_reads := clock_reads self + 1\<rparr>"
  obtain self2 c
    where f: "critique_output_failed lib ?self1 (time_time lib (clock_reads self))
                actor_output critic_agent e = (self2, c)"
    by (cases "critique_output_failed lib ?self1 (time_time lib (clock_reads self))
                actor_output critic_agent e")
  from assms f
  have "critique_output lib self actor_output critic_agent task previous_critiques
          = (self2, Inr c)"
    by (simp add: critique_output_unfold)
  with failed_fields [OF f] failed_degraded [OF f] show ?thesis by simp
qed

lemma critique_output_text:
  assumes "build_critique_prompt lib actor_output critic_agent task previous_critiques
             = Inr prompt"
    and "call_llm_for_critique self prompt critic_agent = Inr critique_result"
  shows "\<exists>self' c.
       critique_output lib self actor_output critic_agent task previous_critiques
         = (self', Inr c)
       \<and> is_normalized_result lib previous_critiques critique_result c
       \<and> iteration c = current_iteration self + 1
       \<and> current_iteration self' = current_iteration self + 1
       \<and> critique_history self' = critique_history self @ [c]
       \<and> naga_conversation self' = naga_conversation self"
proof -
  let ?self1 = "self\<lparr>current_iteration := current_iteration self + 1,
                      clock_reads := clock_reads self + 1\<rparr>"
  obtain self2 c
    where f: "critique_output_finish lib ?self1 (time_time lib (clock_reads self))
                actor_output critic_agent task previous_critiques critique_result
                = (self2, c)"
    by (cases "critique_output_finish lib ?self1 (time_time lib (clock_reads self))
                actor_output critic_agent task previous_critiques critique_result")
  from assms f
  have "critique_output lib self actor_output critic_agent task previous_critiques
          = (self2, Inr c)"
    by (simp add: critique_output_unfold)
  with finish_fields [OF f] finish_normalized [OF f] show ?thesis by simp
qed

lemma critique_output_raised:
  assumes "build_critique_prompt lib actor_output critic_agent task previous_critiques
             = Inr prompt"
    and "call_llm_for_critique self prompt critic_agent = Inl raised"
  shows "critique_output lib self actor_output critic_agent task previous_critiques
     = (self\<lparr>current_iteration := current_iteration self + 1,
              clock_reads := clock_reads self + 1\<rparr>, Inl raised)"
  using assms by (simp add: critique_output_unfold)

lemma critique_output_counter:
  assumes "critique_output lib self actor_output critic_agent task previous_critiques
             = (self', r)"
  shows "current_iteration self' = current_iteration self + 1
    \<and> naga_conversation self' = naga_conversation self
    \<and> (\<forall>c. r = Inr c \<longrightarrow> iteration c = current_iteration self + 1)"
proof (cases "build_critique_prompt lib actor_output critic_agent task previous_critiques")
  case (Inl e)
  from critique_output_prompt_error [OF Inl, of self] assms show ?thesis by auto
next
  case p: (Inr prompt)
  show ?thesis
  proof (cases "call_llm_for_critique self prompt critic_agent")
    case (Inl raised)
    from critique_output_raised [OF p Inl] assms show ?thesis by auto
  next
    case (Inr critique_result)
    from critique_output_text [OF p Inr] assms show ?thesis by auto
  qed
qed

lemma critique_output_uncancelled:
  assumes "never_cancelled self"
    and "critique_output lib self actor_output critic_agent task previous_critiques
           = (self', r)"
  shows "\<exists>c. r = Inr c"
proof (cases "build_critique_prompt lib actor_output critic_agent task previous_critiques")
  case (Inl e)
  from critique_output_prompt_error [OF Inl, of self] assms(2) show ?thesis by auto
next
  case p: (Inr prompt)
  from call_llm_uncancelled [OF assms(1)] obtain critique_result
    where t: "call_llm_for_critique self prompt critic_agent = Inr critique_result"
    by blast
  from critique_output_text [OF p t] assms(2) show ?thesis by auto
qed

lemma critique_output_history:
  assumes "critique_output lib self actor_output critic_agent task previous_critiques
             = (self', Inr c)"
  shows "critique_history self' =
     (if isl (build_critique_prompt lib actor_output critic_agent task previous_critiques)
      then critique_history self else critique_history self @ [c])"
proof (cases "build_critique_prompt lib actor_output critic_agent task previous_critiques")
  case (Inl e)
  from critique_output_prompt_error [OF Inl, of self] assms show ?thesis by (auto simp: Inl)
next
  case p: (Inr prompt)
  show ?thesis
  proof (cases "call_llm_for_critique self prompt critic_agent")
    case (Inl raised)
    from critique_output_raised [OF p Inl] assms show ?thesis by auto
  next
    case (Inr critique_result)
    from critique_output_text [OF p Inr] assms show ?thesis by (auto simp: p)
  qed
qed

lemma never_cancelled_cong:
  "naga_conversation a = naga_conversation b \<Longrightarrow> never_cancelled a = never_cancelled b"
  by (simp add: never_cancelled_def)

lemma always_suspends_cong:
  "naga_conversation a = naga_conversation b \<Longrightarrow> always_suspends a = always_suspends b"
  by (simp add: always_suspends_def)

lemma never_suspends_cong:
  "naga_conversation a = naga_conversation b \<Longrightarrow> never_suspends a = never_suspends b"
  by (simp add: never_suspends_def)

lemma critique_sequence_iterations:
  "never_cancelled self \<Longrightarrow> critique_sequence lib self calls = (self', results) \<Longrightarrow>
   map recorded_iteration results
     = map (\<lambda>k. Some (current_iteration self + 1 + int k)) [0..<length calls]
   \<and> current_iteration self' = current_iteration self + int (length calls)"
proof (induction calls arbitrary: self self' results)
  case Nil
  then show ?case by simp
next
  case (Cons call calls)
  obtain actor_output critic_agent task previous_critiques
    where call: "call = (actor_output, critic_agent, task, previous_critiques)"
    by (cases call) auto
  obtain self1 r
    where c: "critique_output lib self actor_output critic_agent task previous_critiques
                = (self1, r)"
    by (cases "critique_output lib self actor_output critic_agent task previous_critiques")
  obtain self2 rs where cs: "critique_sequence lib self1 calls = (self2, rs)"
    by (cases "critique_sequence lib self1 calls")
  from Cons.prems(2) call c cs have eq: "self' = self2" "results = r # rs"
    by simp_all
  note cc = critique_output_counter [OF c]
  from critique_output_uncancelled [OF Cons.prems(1) c] obtain x where x: "r = Inr x"
    by blast
  from cc Cons.prems(1) have "never_cancelled self1"
    by (simp add: never_cancelled_cong [of self1 self])
  note ih = Cons.IH [OF this cs]
  have "map (\<lambda>k. Some (current_iteration self + 1 + int k)) [0..<length (call # calls)]
          = Some (current_iteration self + 1)
            # map (\<lambda>k. Some (current_iteration self1 + 1 + int k)) [0..<length calls]"
    using cc by (simp add: upt_rec [of 0] map_Suc_upt [symmetric] del: upt_Suc)
  with ih cc eq x show ?case by simp
qed

lemma satisfaction_without_history: "calculate_satisfaction_score None scores = 7"
  by (simp add: calculate_satisfaction_score_def)

section \<open>The batch runner\<close>

text \<open>A task that runs alone, started and then resumed, is a call of
  \<^verbatim>\<open>critique_output\<close>.\<close>

lemma coroutine_alone:
  "(case coroutine_start lib self actor_output critic_agent task previous_critiques of
      (self1, c) \<Rightarrow> coroutine_resume lib self1 c)
   = critique_output lib self actor_output critic_agent task previous_critiques"
  by (simp add: coroutine_start_def coroutine_resume_def critique_output_resume_def
        critique_output_def critique_output_enter_def call_llm_for_critique_def Let_def
        split: prod.splits sum.splits option.splits)

lemma critique_output_resume_result:
  assumes "critique_output_resume lib self start_time actor_output critic_agent task None
             response = (self1, r)"
  shows "result_of_pair (actor_output, critic_agent) r
    \<and> current_iteration self1 = current_iteration self
    \<and> naga_conversation self1 = naga_conversation self
    \<and> (\<forall>x. r = Inr x \<longrightarrow> iteration x = current_iteration self)
    \<and> ((case response of Inl (CancelledError m) \<Rightarrow> False | _ \<Rightarrow> True) \<longrightarrow> \<not> isl r)"
proof (cases "llm_response critic_agent response")
  case (Inl raised)
  then obtain m where "raised = CancelledError m" "response = Inl (CancelledError m)"
    by (auto simp: llm_response_def split: sum.splits base_exception.splits pyval.splits)
  with assms Inl show ?thesis
    by (auto simp: critique_output_resume_def)
next
  case (Inr critique_result)
  obtain self2 c
    where f: "critique_output_finish lib self start_time actor_output critic_agent task None
                critique_result = (self2, c)"
    by (cases "critique_output_finish lib self start_time actor_output critic_agent task None
                critique_result")
  from assms Inr f have eq: "self1 = self2" "r = Inr c"
    by (simp_all add: critique_output_resume_def)
  from metadata_error_finish [of lib self start_time actor_output critic_agent task None
      critique_result] f
  have "metadata_error c = PBool False" by simp
  with finish_fields [OF f] eq show ?thesis
    by (simp add: satisfaction_without_history)
qed

lemma coroutine_start_task:
  assumes "coroutine_start lib self actor_output critic_agent task None = (self1, c)"
  shows "task_of_pair (actor_output, critic_agent) c
    \<and> current_iteration self1 = current_iteration self + 1
    \<and> naga_conversation self1 = naga_conversation self
    \<and> (always_suspends self \<longrightarrow> is_suspended c)
    \<and> (never_cancelled self \<longrightarrow> is_uncancelled c)"
proof -
  let ?self1 = "self\<lparr>current_iteration := current_iteration self + 1,
                      clock_reads := clock_reads self + 1\<rparr>"
  obtain prompt
    where p: "build_critique_prompt lib actor_output critic_agent task None = Inr prompt"
    using build_prompt_without_history by blast
  show ?thesis
  proof (cases "naga_conversation self")
    case None
    obtain self2 critique
      where f: "critique_output_finish lib ?self1 (time_time lib (clock_reads self))
                  actor_output critic_agent task None (generate_mock_critique critic_agent)
                = (self2, critique)"
      by (cases "critique_output_finish lib ?self1 (time_time lib (clock_reads self))
                  actor_output critic_agent task None (generate_mock_critique critic_agent)")
    from assms p None f have eq: "self1 = self2" "c = Ended (Inr critique)"
      by (simp_all add: coroutine_start_def critique_output_enter_def Let_def)
    from metadata_error_finish [of lib ?self1 "time_time lib (clock_reads self)" actor_output
        critic_agent task None "generate_mock_critique critic_agent"] f
    have "metadata_error critique = PBool False" by simp
    with finish_fields [OF f] eq None show ?thesis
      by (simp add: satisfaction_without_history always_suspends_def)
  next
    case (Some conversation)
    show ?thesis
    proof (cases "fst (conversation prompt)")
      case True
      with assms p Some
      have "self1 = ?self1"
        and "c = Suspended (time_time lib (clock_reads self)) actor_output critic_agent task
                   None (snd (conversation prompt))"
        by (simp_all add: coroutine_start_def critique_output_enter_def Let_def)
      with Some show ?thesis
        by (auto simp: never_cancelled_def split: sum.splits base_exception.splits)
    next
      case False
      obtain self2 r
        where f: "critique_output_resume lib ?self1 (time_time lib (clock_reads self))
                    actor_output critic_agent task None (snd (conversation prompt))
                  = (self2, r)"
        by (cases "critique_output_resume lib ?self1 (time_time lib (clock_reads self))
                    actor_output critic_agent task None (snd (conversation prompt))")
      from assms p Some False f have eq: "self1 = self2" "c = Ended r"
        by (simp_all add: coroutine_start_def critique_output_enter_def Let_def)
      have u: "never_cancelled self \<Longrightarrow>
          (case snd (conversation prompt) of Inl (CancelledError m) \<Rightarrow> False | _ \<Rightarrow> True)"
        using Some
        by (auto simp: never_cancelled_def split: sum.splits base_exception.splits)
      from critique_output_resume_result [OF f] eq Some False u show ?thesis
        by (auto simp: always_suspends_def)
    qed
  qed
qed

lemma start_all_tasks:
  "start_all lib self pairs task = (self1, cs) \<Longrightarrow>
   list_all2 task_of_pair pairs cs
   \<and> current_iteration self1 = current_iteration self + int (length pairs)
   \<and> naga_conversation self1 = naga_conversation self
   \<and> (always_suspends self \<longrightarrow> list_all is_suspended cs)
   \<and> (never_cancelled self \<longrightarrow> list_all is_uncancelled cs)"
proof (induction pairs arbitrary: self self1 cs)
  case Nil
  then show ?case by simp
next
  case (Cons p pairs)
  obtain selfa c where c: "coroutine_start lib self (fst p) (snd p) task None = (selfa, c)"
    by (cases "coroutine_start lib self (fst p) (snd p) task None")
  obtain selfb cs' where r: "start_all lib selfa pairs task = (selfb, cs')"
    by (cases "start_all lib selfa pairs task")
  from Cons.prems c r have eq: "self1 = selfb" "cs = c # cs'" by simp_all
  note st = coroutine_start_task [OF c]
  from st have "always_suspends selfa = always_suspends self"
    and "never_cancelled selfa = never_cancelled self"
    by (simp_all add: always_suspends_cong [of selfa self] never_cancelled_cong [of selfa self])
  with st Cons.IH [OF r] eq show ?case by simp
qed

lemma coroutine_resume_result:
  assumes "task_of_pair p c" and "coroutine_resume lib self c = (self1, r)"
  shows "result_of_pair p r
    \<and> current_iteration self1 = current_iteration self
    \<and> (is_uncancelled c \<longrightarrow> \<not> isl r)
    \<and> (is_suspended c \<longrightarrow> (\<forall>x. r = Inr x \<longrightarrow> iteration x = current_iteration self))"
proof (cases c)
  case (Ended result)
  with assms show ?thesis by (simp add: coroutine_resume_def)
next
  case (Suspended start_time actor_output critic_agent task previous_critiques response)
  with assms
  have f: "critique_output_resume lib self start_time (fst p) (snd p) task None response
             = (self1, r)"
    by (simp add: coroutine_resume_def)
  from critique_output_resume_result [OF f] Suspended show ?thesis
    by simp
qed

lemma resume_all_results:
  "list_all2 task_of_pair pairs cs \<Longrightarrow> resume_all lib self cs = (self2, results) \<Longrightarrow>
   list_all2 result_of_pair pairs results
   \<and> current_iteration self2 = current_iteration self
   \<and> (list_all is_uncancelled cs \<longrightarrow> list_all (\<lambda>r. \<not> isl r) results)
   \<and> (list_all is_suspended cs \<longrightarrow>
        list_all (\<lambda>r. \<forall>x. r = Inr x \<longrightarrow> iteration x = current_iteration self) results)"
proof (induction pairs cs arbitrary: self self2 results rule: list_all2_induct)
  case Nil
  then show ?case by simp
next
  case (Cons p pairs c cs)
  obtain selfa r where c: "coroutine_resume lib self c = (selfa, r)"
    by (cases "coroutine_resume lib self c")
  obtain selfb rs where r: "resume_all lib selfa cs = (selfb, rs)"
    by (cases "resume_all lib selfa cs")
  from Cons.prems c r have eq: "self2 = selfb" "results = r # rs" by simp_all
  from coroutine_resume_result [OF Cons.hyps(1) c] Cons.IH [OF r] eq show ?case by simp
qed

lemma recorded_iterations_replicate:
  "list_all (\<lambda>r. \<not> isl r) results \<Longrightarrow>
   list_all (\<lambda>r. \<forall>x. r = Inr x \<longrightarrow> iteration x = i) results \<Longrightarrow>
   map recorded_iteration results = replicate (length results) (Some i)"
proof (induction results)
  case Nil
  then show ?case by simp
next
  case (Cons r results)
  then show ?case by (cases r) simp_all
qed

lemma valid_critiques_results:
  "list_all2 result_of_pair pairs results \<Longrightarrow> valid_critiques results = results"
proof (induction pairs results rule: list_all2_induct)
  case Nil
  then show ?case by simp
next
  case (Cons p pairs r results)
  show ?case
  proof (cases r)
    case (Inl raised)
    with Cons show ?thesis by (cases raised) simp_all
  next
    case (Inr critique)
    with Cons show ?thesis by simp
  qed
qed

lemma critiques_of_results:
  "list_all2 result_of_pair pairs results \<Longrightarrow>
   list_all (\<lambda>c. satisfaction_score c = 7 \<and> metadata_error c = PBool False)
     (critiques_of results)"
proof (induction pairs results rule: list_all2_induct)
  case Nil
  then show ?case by simp
next
  case (Cons p pairs r results)
  then show ?case by (cases r) simp_all
qed

lemma critiques_of_all:
  "list_all (\<lambda>r. \<not> isl r) results \<Longrightarrow> map Inr (critiques_of results) = results"
proof (induction results)
  case Nil
  then show ?case by simp
next
  case (Cons r results)
  then show ?case by (cases r) simp_all
qed

lemma batch_critique_results:
  assumes "batch_critique lib self actor_outputs critic_agents task = (self', results)"
  shows "list_all2 result_of_pair (critique_pairs actor_outputs critic_agents) results
    \<and> current_iteration self'
       = current_iteration self + int (length (critique_pairs actor_outputs critic_agents))
    \<and> (never_cancelled self \<longrightarrow> list_all (\<lambda>r. \<not> isl r) results)
    \<and> (always_suspends self \<longrightarrow> never_cancelled self \<longrightarrow>
         map recorded_iteration results
           = replicate (length (critique_pairs actor_outputs critic_agents))
               (Some (current_iteration self
                      + int (length (critique_pairs actor_outputs critic_agents)))))"
proof -
  let ?pairs = "critique_pairs actor_outputs critic_agents"
  obtain self1 cs where s: "start_all lib self ?pairs task = (self1, cs)"
    by (cases "start_all lib self ?pairs task")
  obtain self2 rs where r: "resume_all lib self1 cs = (self2, rs)"
    by (cases "resume_all lib self1 cs")
  note st = start_all_tasks [OF s]
  from st have l2: "list_all2 task_of_pair ?pairs cs" by simp
  note rt = resume_all_results [OF l2 r]
  from rt have lr: "list_all2 result_of_pair ?pairs rs" by simp
  from assms s r have eq: "self' = self2" "results = rs"
    by (simp_all add: batch_critique_def valid_critiques_results [OF lr])
  from lr have len: "length rs = length ?pairs" by (simp add: list_all2_lengthD)
  have "map recorded_iteration rs
          = replicate (length ?pairs) (Some (current_iteration self + int (length ?pairs)))"
    if "always_suspends self" and "never_cancelled self"
    using recorded_iterations_replicate [of rs "current_iteration self1"] st rt that len
    by simp
  with lr st rt eq show ?thesis by simp
qed

lemma map_filter_concat:
  "map (Pair a) (filter P cs) = concat (map (\<lambda>c. if P c then [(a, c)] else []) cs)"
  by (induction cs) simp_all

lemma critique_pairs_comprehension:
  "critique_pairs actor_outputs critic_agents =
     [(actor_output, critic_agent).
        actor_output \<leftarrow> actor_outputs, critic_agent \<leftarrow> critic_agents,
        ao_agent_id actor_output \<noteq> agent_id critic_agent]"
  by (simp add: critique_pairs_def map_filter_concat)

lemma critique_pairs_distinct_ids:
  "list_all (\<lambda>p. ao_agent_id (fst p) \<noteq> agent_id (snd p))
     (critique_pairs actor_outputs critic_agents)"
  by (auto simp: critique_pairs_def list_all_iff)

lemma coroutine_start_ended:
  assumes "never_suspends self" and "never_cancelled self"
    and "coroutine_start lib self actor_output critic_agent task None = (self1, c)"
  shows "\<exists>x. c = Ended (Inr x) \<and> iteration x = current_iteration self + 1"
proof -
  let ?self1 = "self\<lparr>current_iteration := current_iteration self + 1,
                      clock_reads := clock_reads self + 1\<rparr>"
  obtain prompt
    where p: "build_critique_prompt lib actor_output critic_agent task None = Inr prompt"
    using build_prompt_without_history by blast
  show ?thesis
  proof (cases "naga_conversation self")
    case None
    obtain self2 critique
      where f: "critique_output_finish lib ?self1 (time_time lib (clock_reads self))
                  actor_output critic_agent task None (generate_mock_critique critic_agent)
                = (self2, critique)"
      by (cases "critique_output_finish lib ?self1 (time_time lib (clock_reads self))
                  actor_output critic_agent task None (generate_mock_critique critic_agent)")
    from assms(3) p None f have "c = Ended (Inr critique)"
      by (simp add: coroutine_start_def critique_output_enter_def Let_def)
    with finish_fields [OF f] show ?thesis by simp
  next
    case (Some conversation)
    with assms(1) have n: "\<not> fst (conversation prompt)"
      by (simp add: never_suspends_def)
    obtain self2 r
      where f: "critique_output_resume lib ?self1 (time_time lib (clock_reads self))
                  actor_output critic_agent task None (snd (conversation prompt))
                = (self2, r)"
      by (cases "critique_output_resume lib ?self1 (time_time lib (clock_reads self))
                  actor_output critic_agent task None (snd (conversation prompt))")
    from assms(3) p Some n f have eq: "c = Ended r"
      by (simp add: coroutine_start_def critique_output_enter_def Let_def)
    have u: "case snd (conversation prompt) of Inl (CancelledError m) \<Rightarrow> False | _ \<Rightarrow> True"
      using Some assms(2)
      by (auto simp: never_cancelled_def split: sum.splits base_exception.splits)
    from critique_output_resume_result [OF f] u obtain x
      where "r = Inr x" "iteration x = current_iteration ?self1"
      by (cases r) auto
    with eq show ?thesis by simp
  qed
qed

lemma start_all_ended:
  "never_suspends self \<Longrightarrow> never_cancelled self \<Longrightarrow>
   start_all lib self pairs task = (self1, cs) \<Longrightarrow>
   \<exists>xs. cs = map (\<lambda>x. Ended (Inr x)) xs
      \<and> map iteration xs = map (\<lambda>k. current_iteration self + 1 + int k) [0..<length pairs]"
proof (induction pairs arbitrary: self self1 cs)
  case Nil
  then show ?case by simp
next
  case (Cons p pairs)
  obtain selfa c where c: "coroutine_start lib self (fst p) (snd p) task None = (selfa, c)"
    by (cases "coroutine_start lib self (fst p) (snd p) task None")
  obtain selfb cs' where r: "start_all lib selfa pairs task = (selfb, cs')"
    by (cases "start_all lib selfa pairs task")
  from Cons.prems(3) c r have eq: "cs = c # cs'" by simp
  note st = coroutine_start_task [OF c]
  from st Cons.prems(1,2) have "never_suspends selfa" and "never_cancelled selfa"
    by (simp_all add: never_suspends_cong [of selfa self] never_cancelled_cong [of selfa self])
  from Cons.IH [OF this r] obtain xs
    where xs: "cs' = map (\<lambda>x. Ended (Inr x)) xs"
      "map iteration xs = map (\<lambda>k. current_iteration selfa + 1 + int k) [0..<length pairs]"
    by blast
  from coroutine_start_ended [OF Cons.prems(1,2) c] obtain x
    where x: "c = Ended (Inr x)" "iteration x = current_iteration self + 1"
    by blast
  have "map (\<lambda>k. current_iteration self + 1 + int k) [0..<length (p # pairs)]
          = (current_iteration self + 1)
            # map (\<lambda>k. current_iteration selfa + 1 + int k) [0..<length pairs]"
    using st by (simp add: upt_rec [of 0] map_Suc_upt [symmetric] del: upt_Suc)
  with xs x eq have "cs = map (\<lambda>x. Ended (Inr x)) (x # xs)
      \<and> map iteration (x # xs)
        = map (\<lambda>k. current_iteration self + 1 + int k) [0..<length (p # pairs)]"
    by simp
  then show ?case by blast
qed

lemma resume_all_ended:
  "resume_all lib self (map (\<lambda>x. Ended (Inr x)) xs) = (self, map Inr xs)"
  by (induction xs) (simp_all add: coroutine_resume_def)

lemma valid_critiques_critiques: "valid_critiques (map Inr xs) = map Inr xs"
  by (induction xs) simp_all

lemma batch_without_suspension:
  assumes "never_suspends self" and "never_cancelled self"
  shows "map recorded_iteration
       (snd (batch_critique lib self actor_outputs critic_agents task))
     = map (\<lambda>k. Some (current_iteration self + 1 + int k))
         [0..<length (critique_pairs actor_outputs critic_agents)]"
proof -
  let ?pairs = "critique_pairs actor_outputs critic_agents"
  obtain self1 cs where s: "start_all lib self ?pairs task = (self1, cs)"
    by (cases "start_all lib self ?pairs task")
  from start_all_ended [OF assms s] obtain xs
    where xs: "cs = map (\<lambda>x. Ended (Inr x)) xs"
      "map iteration xs = map (\<lambda>k. current_iteration self + 1 + int k) [0..<length ?pairs]"
    by blast
  have "map recorded_iteration (map Inr xs) = map Some (map iteration xs)"
    by simp
  with s xs show ?thesis
    by (simp add: batch_critique_def resume_all_ended valid_critiques_critiques)
qed

section \<open>The examples of the orchestrator\<close>


lemma ex_strip_garbage: "py_strip ex_text_garbage = ex_text_garbage"
  by (simp add: py_strip_def py_isspace_def ex_text_garbage_def ascii_def)

lemma ex_strip_summary_number: "py_strip ex_text_summary_number = ex_text_summary_number"
  by (simp add: py_strip_def py_isspace_def ex_text_summary_number_def ascii_def)



lemma ex_parse_summary_number:
  "parse_critique_result ex_lib ex_text_summary_number = ([], 7, PInt 5, PList [])"
  by (simp add: parse_critique_result_def parse_critique_body_def ex_extract_summary_number
        ex_loads_summary_number ex_data_summary_number_def parse_critique_data_dict
        parse_dimension_field_def py_contains_def summary_or_default_def
        suggestions_or_default_def ascii_def)

lemma ex_pairs:
  "critique_pairs [ex_output] [ex_critic_a, ex_critic_b, ex_critic_c]
     = [(ex_output, ex_critic_b), (ex_output, ex_critic_c)]"
  by (simp add: critique_pairs_def ex_output_def ex_critic_a_def ex_critic_b_def
        ex_critic_c_def ascii_def)

lemma ex_target_id: "target_id ex_output = ascii ''agent_a_1''"
  by (simp add: target_id_def ex_output_def py_str_int_def str_of_nat.simps ascii_def)


lemma ex_call_llm:
  "call_llm_for_critique (ex_criticizer (Some ex_conversation_raising)) prompt critic_agent
     = Inr (generate_mock_critique critic_agent)"
  "call_llm_for_critique (ex_criticizer (Some ex_conversation_garbage)) prompt critic_agent
     = Inr ex_text_garbage"
  "call_llm_for_critique (ex_criticizer (Some ex_conversation_summary_number)) prompt
       critic_agent
     = Inr ex_text_summary_number"
  "call_llm_for_critique (ex_criticizer (Some ex_conversation_cancelled)) prompt critic_agent
     = Inl (CancelledError [])"
  by (simp_all add: call_llm_cases ex_criticizer_def ex_conversation_raising_def
        ex_conversation_garbage_def ex_conversation_summary_number_def
        ex_conversation_cancelled_def ex_strip_garbage ex_strip_summary_number)

lemma ex_collaborators:
  "always_suspends (ex_criticizer (Some ex_conversation_garbage))"
  "never_cancelled (ex_criticizer (Some ex_conversation_garbage))"
  "never_suspends (ex_criticizer (Some ex_conversation_stub))"
  "never_cancelled (ex_criticizer (Some ex_conversation_stub))"
  "never_cancelled (ex_criticizer None)"
  by (simp_all add: always_suspends_def never_cancelled_def never_suspends_def
        ex_criticizer_def ex_conversation_garbage_def ex_conversation_stub_def)

section \<open>The claims about the orchestrator\<close>

subsection \<open>Exceptions inside the pipeline\<close>




subsection \<open>The history\<close>

text \<open>
  Claim C4 does not hold of the code: the handler of \<^verbatim>\<open>critique_output\<close> returns the
  degraded result without appending it. Two calls on a fresh criticizer whose collaborator
  answers \<^verbatim>\<open>{"summary_critique": 5}\<close>: the first records its result, whose summary is
  the number 5; the second, given that result as the previous critique, cannot build its
  prompt and returns a degraded result with iteration 2, and the history still holds the
  first result alone.
\<close>

theorem failed_critique_not_appended:
  "case critique_output ex_lib (ex_criticizer (Some ex_conversation_summary_number))
          ex_output ex_critic_b ex_task None of
     (self1, Inl raised) \<Rightarrow> False
   | (self1, Inr c1) \<Rightarrow>
       (case critique_output ex_lib self1 ex_output ex_critic_b ex_task (Some [c1]) of
          (self2, Inl raised) \<Rightarrow> False
        | (self2, Inr c2) \<Rightarrow>
            summary_critique c1 = PInt 5
            \<and> critique_history self1 = [c1]
            \<and> map_of (metadata c2) (ascii ''error'') = Some (PBool True)
            \<and> iteration c2 = 2
            \<and> current_iteration self2 = 2
            \<and> critique_history self2 = [c1])"
proof -
  let ?self = "ex_criticizer (Some ex_conversation_summary_number)"
  obtain prompt
    where p: "build_critique_prompt ex_lib ex_output ex_critic_b ex_task None = Inr prompt"
    using build_prompt_without_history by blast
  from critique_output_text [OF p ex_call_llm(3)] obtain self1 c1
    where c1: "critique_output ex_lib ?self ex_output ex_critic_b ex_task None
                 = (self1, Inr c1)"
      and n1: "is_normalized_result ex_lib None ex_text_summary_number c1"
      and "current_iteration self1 = current_iteration ?self + 1"
      and "critique_history self1 = critique_history ?self @ [c1]"
    by blast
  then have i1: "current_iteration self1 = 1" and h1: "critique_history self1 = [c1]"
    by (simp_all add: ex_criticizer_def)
  from n1 have s1: "summary_critique c1 = PInt 5"
    by (simp add: is_normalized_result_def ex_parse_summary_number)
  have e: "build_critique_prompt ex_lib ex_output ex_critic_b ex_task (Some [c1])
             = Inl (Exc TypeError
                 ([39] @ ascii ''int'' @ [39] @ ascii '' object is not subscriptable''))"
    by (rule build_prompt_history_error) (simp_all add: s1 py_slice_to_def)
  from critique_output_prompt_error [OF e, of self1] obtain self2 c2
    where c2: "critique_output ex_lib self1 ex_output ex_critic_b ex_task (Some [c1])
                 = (self2, Inr c2)"
      and d2: "is_degraded_result
                 (Exc TypeError
                    ([39] @ ascii ''int'' @ [39] @ ascii '' object is not subscriptable'')) c2"
      and i2: "iteration c2 = current_iteration self1 + 1"
        "current_iteration self2 = current_iteration self1 + 1"
      and h2: "critique_history self2 = critique_history self1"
    by blast
  from d2 have m2: "map_of (metadata c2) (ascii ''error'') = Some (PBool True)"
    by (simp add: is_degraded_result_def)
  from s1 h1 i1 m2 i2 h2 show ?thesis
    by (simp add: c1 c2)
qed

subsection \<open>The iteration counter\<close>

text \<open>
  Calls made one after the other: each increments the counter by one and stamps its
  result, degraded or not, with the value it produced, so that \<open>n\<close> calls that are not
  cancelled record the values from one past the counter's start, without gap or
  repetition.
\<close>

lemma init_fresh:
  "init (Some conversation) imported = Inr (ex_criticizer (Some conversation))"
  "init None (Inr conversation) = Inr (ex_criticizer (Some conversation))"
  "init None (Inl (Exc ImportError m)) = Inr (ex_criticizer None)"
  by (simp_all add: init_def ex_criticizer_def)

lemma sequential_iterations:
  "never_cancelled (ex_criticizer conversation) \<Longrightarrow>
   critique_sequence lib (ex_criticizer conversation) calls = (self', results) \<Longrightarrow>
   map recorded_iteration results = map (\<lambda>k. Some (1 + int k)) [0..<length calls]"
  using critique_sequence_iterations [of "ex_criticizer conversation" lib calls self' results]
  by (simp add: ex_criticizer_def)

text \<open>
  The same holds of a batch whose evaluations never wait, as with the simulated evaluator or
  with a stub that answers at once: each evaluation runs to its end before the next one
  starts.
\<close>

lemma stub_batch_iterations:
  "map recorded_iteration
     (snd (batch_critique ex_lib (ex_criticizer (Some ex_conversation_stub)) [ex_output]
             [ex_critic_a, ex_critic_b, ex_critic_c] ex_task))
   = [Some 1, Some 2]"
  using batch_without_suspension [OF ex_collaborators(3,4), of ex_lib "[ex_output]"
      "[ex_critic_a, ex_critic_b, ex_critic_c]" ex_task]
  by (simp add: ex_pairs ex_criticizer_def upt_rec [of 0] upt_rec [of 1] numeral_2_eq_2)

text \<open>
  Claim C5 does not hold of the code under concurrent calls. The result is stamped with
  the counter as it stands after the awaited call of the collaborator, and when that call
  waits, every task that \<^verbatim>\<open>asyncio.gather\<close> started has incremented the counter by then. A
  batch of two evaluations on a fresh criticizer, with a collaborator that waits for its
  answer, records the iteration 2 twice, and never 1.
\<close>

theorem concurrent_iterations_collide:
  "map recorded_iteration
     (snd (batch_critique ex_lib (ex_criticizer (Some ex_conversation_garbage)) [ex_output]
             [ex_critic_a, ex_critic_b, ex_critic_c] ex_task))
   = [Some 2, Some 2]"
proof -
  let ?self = "ex_criticizer (Some ex_conversation_garbage)"
  obtain self' results
    where b: "batch_critique ex_lib ?self [ex_output] [ex_critic_a, ex_critic_b, ex_critic_c]
                ex_task = (self', results)"
    by (cases "batch_critique ex_lib ?self [ex_output] [ex_critic_a, ex_critic_b, ex_critic_c]
                ex_task")
  have i: "current_iteration ?self = 0"
    by (simp add: ex_criticizer_def)
  from batch_critique_results [OF b] ex_collaborators(1,2) i show ?thesis
    by (simp add: b ex_pairs numeral_2_eq_2)
qed

subsection \<open>Statistics of an empty history\<close>

lemma statistics_empty_keys:
  assumes "critique_history self = []"
  shows "get_critique_statistics self =
           [(ascii ''total_critiques'', PInt 0),
            (ascii ''average_overall_score'', PInt 0),
            (ascii ''average_satisfaction_score'', PInt 0),
            (ascii ''current_iteration'', PInt (current_iteration self)),
            (ascii ''api_available'', PBool (naga_conversation self \<noteq> None))]
    \<and> map_of (get_critique_statistics self) (ascii ''successful_critiques'') = None
    \<and> map_of (get_critique_statistics self) (ascii ''failed_critiques'') = None
    \<and> map_of (get_critique_statistics self) (ascii ''average_critique_time'') = None"
  using assms by (simp add: get_critique_statistics_def ascii_def)

text \<open>The branch for a history that is not empty returns the three keys.\<close>

lemma statistics_nonempty_keys:
  assumes "critique_history self \<noteq> []"
  shows "map_of (get_critique_statistics self) (ascii ''successful_critiques'')
           = Some (PInt (int (length (filter (\<lambda>c. \<not> py_truthy (metadata_error c))
                                        (critique_history self)))))
    \<and> map_of (get_critique_statistics self) (ascii ''failed_critiques'')
           = Some (PInt (int (length (critique_history self))
                - int (length (filter (\<lambda>c. \<not> py_truthy (metadata_error c))
                                 (critique_history self)))))
    \<and> map_of (get_critique_statistics self) (ascii ''average_critique_time'')
           = Some (PFloat (sum_list (map critique_time (critique_history self))
                / real (length (critique_history self))))"
  using assms by (simp add: get_critique_statistics_def ascii_def Let_def)

text \<open>
  Claim C7 does not hold of the code in full. On a fresh criticizer the statistics are
  returned without a division: the total is 0, both average scores are 0, and the counter
  and the availability flag are there. But the mapping has no entry for the successful
  count, the failed count or the average elapsed time, which the other branch of the
  same function returns.
\<close>

theorem statistics_of_fresh_criticizer:
  "get_critique_statistics (ex_criticizer None) =
     [(ascii ''total_critiques'', PInt 0),
      (ascii ''average_overall_score'', PInt 0),
      (ascii ''average_satisfaction_score'', PInt 0),
      (ascii ''current_iteration'', PInt 0),
      (ascii ''api_available'', PBool False)]
   \<and> map_of (get_critique_statistics (ex_criticizer None)) (ascii ''successful_critiques'')
     = None
   \<and> map_of (get_critique_statistics (ex_criticizer None)) (ascii ''failed_critiques'')
     = None
   \<and> map_of (get_critique_statistics (ex_criticizer None)) (ascii ''average_critique_time'')
     = None"
  using statistics_empty_keys [of "ex_criticizer None"]
  by (simp add: ex_criticizer_def ascii_def)

subsection \<open>The batch runner\<close>

text \<open>
  The pairs for which the batch runner creates an evaluation are those of a content and an
  evaluator whose agent ids differ, in the order of the nested loops; each result is there
  for its pair, in that order, and the counter has been incremented once for each pair.
\<close>

lemma batch_results_of_pairs:
  "list_all2 result_of_pair (critique_pairs actor_outputs critic_agents)
     (snd (batch_critique lib self actor_outputs critic_agents task))
   \<and> critique_pairs actor_outputs critic_agents
     = [(actor_output, critic_agent).
          actor_output \<leftarrow> actor_outputs, critic_agent \<leftarrow> critic_agents,
          ao_agent_id actor_output \<noteq> agent_id critic_agent]
   \<and> list_all (\<lambda>p. ao_agent_id (fst p) \<noteq> agent_id (snd p))
       (critique_pairs actor_outputs critic_agents)
   \<and> current_iteration (fst (batch_critique lib self actor_outputs critic_agents task))
     = current_iteration self + int (length (critique_pairs actor_outputs critic_agents))"
proof -
  obtain self' results
    where b: "batch_critique lib self actor_outputs critic_agents task = (self', results)"
    by (cases "batch_critique lib self actor_outputs critic_agents task")
  from batch_critique_results [OF b] critique_pairs_distinct_ids [of actor_outputs critic_agents]
    critique_pairs_comprehension [of actor_outputs critic_agents]
  show ?thesis
    by (simp add: b)
qed

text \<open>
  Claim C9 does not hold of the code where it says that the results that are exceptions
  are left out of the returned list. The loop that fills the list tests
  \<^verbatim>\<open>isinstance(result, Exception)\<close>, and the one exception that an evaluation lets out,
  \<^verbatim>\<open>CancelledError\<close>, is no instance of \<^verbatim>\<open>Exception\<close>. An output of \<^verbatim>\<open>agent_a\<close>, the
  evaluators \<^verbatim>\<open>agent_a\<close>, \<^verbatim>\<open>agent_b\<close> and \<^verbatim>\<open>agent_c\<close>, and a collaborator whose awaited
  call is cancelled: the two evaluations by \<^verbatim>\<open>agent_b\<close> and \<^verbatim>\<open>agent_c\<close> are started, each
  increments the counter, neither records a critique, and the list returned as the valid
  critiques holds the two \<^verbatim>\<open>CancelledError\<close> objects.
\<close>

theorem batch_keeps_cancelled:
  "batch_critique ex_lib (ex_criticizer (Some ex_conversation_cancelled)) [ex_output]
       [ex_critic_a, ex_critic_b, ex_critic_c] ex_task
   = (\<lparr>naga_conversation = Some ex_conversation_cancelled, critique_history = [],
       current_iteration = 2, clock_reads = 2\<rparr>,
      [Inl (CancelledError []), Inl (CancelledError [])])"
proof -
  have s: "coroutine_start ex_lib
             \<lparr>naga_conversation = Some ex_conversation_cancelled, critique_history = [],
              current_iteration = i, clock_reads = k\<rparr> actor_output critic_agent ex_task None
           = (\<lparr>naga_conversation = Some ex_conversation_cancelled, critique_history = [],
               current_iteration = i + 1, clock_reads = k + 1\<rparr>,
              Suspended (real k) actor_output critic_agent ex_task None
                (Inl (CancelledError [])))"
    for i k actor_output critic_agent
  proof -
    obtain prompt
      where p: "build_critique_prompt ex_lib actor_output critic_agent ex_task None
                  = Inr prompt"
      using build_prompt_without_history by blast
    then show ?thesis
      by (simp add: coroutine_start_def critique_output_enter_def Let_def
            ex_conversation_cancelled_def ex_lib_simps)
  qed
  have r: "coroutine_resume ex_lib self
             (Suspended start_time actor_output critic_agent ex_task None
                (Inl (CancelledError [])))
           = (self, Inl (CancelledError []))"
    for self start_time actor_output critic_agent
    by (simp add: coroutine_resume_def critique_output_resume_def llm_response_def)
  show ?thesis
    by (simp add: batch_critique_def ex_pairs ex_criticizer_def s r)
qed

text \<open>
  Claim C10. The batch runner passes no previous critiques, so every critique it returns
  has the satisfaction 7 when it is not flagged as an error and 5 when it is. In the
  model none is flagged, since a prompt without previous critiques is always built.
\<close>

theorem batch_satisfaction_neutral:
  "list_all (\<lambda>c. satisfaction_score c = (if py_truthy (metadata_error c) then 5 else 7))
     (critiques_of (snd (batch_critique lib self actor_outputs critic_agents task)))
   \<and> list_all (\<lambda>c. satisfaction_score c = 7 \<and> \<not> py_truthy (metadata_error c))
       (critiques_of (snd (batch_critique lib self actor_outputs critic_agents task)))"
proof -
  obtain self' results
    where b: "batch_critique lib self actor_outputs critic_agents task = (self', results)"
    by (cases "batch_critique lib self actor_outputs critic_agents task")
  from batch_critique_results [OF b]
  have "list_all2 result_of_pair (critique_pairs actor_outputs critic_agents) results"
    by simp
  then have "list_all (\<lambda>c. satisfaction_score c = 7 \<and> metadata_error c = PBool False)
      (critiques_of results)"
    by (rule critiques_of_results)
  then have "list_all (\<lambda>c. satisfaction_score c = 7 \<and> \<not> py_truthy (metadata_error c))
      (critiques_of results)"
    by (induction "critiques_of results" arbitrary: results) (simp_all add: list_all_iff)
  moreover from this
  have "list_all (\<lambda>c. satisfaction_score c = (if py_truthy (metadata_error c) then 5 else 7))
      (critiques_of results)"
    by (simp add: list_all_iff)
  ultimately show ?thesis by (simp add: b)
qed

text \<open>The batch of the two evaluations, with a collaborator whose answer is no JSON: two
  critiques are returned, each with the satisfaction 7.\<close>

theorem batch_satisfaction_neutral_example:
  "map satisfaction_score
     (critiques_of
        (snd (batch_critique ex_lib (ex_criticizer (Some ex_conversation_garbage))
                [ex_output] [ex_critic_a, ex_critic_b, ex_critic_c] ex_task)))
   = [7, 7]
   \<and> length (snd (batch_critique ex_lib (ex_criticizer (Some ex_conversation_garbage))
                    [ex_output] [ex_critic_a, ex_critic_b, ex_critic_c] ex_task)) = 2"
proof -
  let ?self = "ex_criticizer (Some ex_conversation_garbage)"
  let ?critics = "[ex_critic_a, ex_critic_b, ex_critic_c]"
  obtain self' results
    where b: "batch_critique ex_lib ?self [ex_output] ?critics ex_task = (self', results)"
    by (cases "batch_critique ex_lib ?self [ex_output] ?critics ex_task")
  note br = batch_critique_results [OF b]
  from br
  have "list_all2 result_of_pair [(ex_output, ex_critic_b), (ex_output, ex_critic_c)] results"
    by (simp add: ex_pairs)
  from list_all2_lengthD [OF this] have "length results = 2"
    by simp
  moreover from br ex_collaborators(2) have "map Inr (critiques_of results) = results"
    by (simp add: critiques_of_all)
  ultimately have "length (critiques_of results) = 2"
    by (metis length_map)
  then obtain x y where xy: "critiques_of results = [x, y]"
    by (metis (no_types, opaque_lifting) length_0_conv length_Suc_conv numeral_2_eq_2)
  from batch_satisfaction_neutral [of ex_lib ?self "[ex_output]" ?critics ex_task]
    \<open>length results = 2\<close>
  show ?thesis
    by (simp add: b xy)
qed

end
